theory Spec2Isabelle
  imports Complex_Main "HOL-Library.Sublist"
begin

section \<open>JavaScript values of the evaluation bridge\<close>

text \<open>
  The bridge (\<open>_evaluateInternal\<close>, \<open>convertArgument\<close>, \<open>valueFromRemoteObject\<close>,
  \<open>rewriteError\<close>) never computes with numbers: it only compares them with
  \<open>Object.is\<close> against \<open>-0\<close>, \<open>Infinity\<close>, \<open>-Infinity\<close> and \<open>NaN\<close>. A Number is
  therefore one of the four special values or a finite value other than \<open>-0\<close>, given by
  the rational it denotes (\<open>Finite 0\<close> is \<open>+0\<close>). ECMAScript has a single NaN value.
  Strings are lists of code units below 256.
\<close>

datatype number = NaN | Infinity | NegInfinity | NegZero | Finite rat

text \<open>
  A \<open>Protocol.Runtime.RemoteObject\<close> is a JavaScript object whose fields may be absent:
  an absent string field is \<open>None\<close>, an absent \<open>value\<close> (the selector \<open>value'\<close>) reads as \<open>undefined\<close>.
  A \<open>JSHandle\<close> carries its \<open>_disposed\<close> flag and its \<open>_remoteObject\<close>.
  A function value carries the text that \<open>toString()\<close> prints for it, a Symbol its
  description. \<open>JObject\<close> is a plain object, made by an object literal, with its own
  properties.
\<close>

datatype jsvalue =
    JUndefined
  | JNull
  | JBoolean bool
  | JNumber number
  | JBigInt int
  | JString string
  | JSymbol string
  | JStringObject string
  | JFunction string
  | JObject "(string \<times> jsvalue) list"
  | JSHandle (disposed: bool) (remoteObject: RemoteObject)
and RemoteObject =
    RemoteObject (type: "string option") (className: "string option")
      (description: "string option") (value': jsvalue)
      (unserializableValue: "string option") (objectId: "string option")

text \<open>
  A \<open>Protocol.Runtime.CallArgument\<close> as \<open>convertArgument\<close> builds it: an object
  literal; a field is \<open>Some\<close> when the literal has that key.
\<close>

record CallArgument =
  "value" :: "jsvalue option"
  unserializableValue :: "string option"
  objectId :: "string option"

datatype errorClass = Error | TypeError | SyntaxError

datatype jserror = JSError (errorClass: errorClass) (message: string)

section \<open>Built-ins of the language the bridge calls\<close>

fun typeof :: "jsvalue \<Rightarrow> string" where
  "typeof JUndefined = ''undefined''"
| "typeof JNull = ''object''"
| "typeof (JBoolean b) = ''boolean''"
| "typeof (JNumber x) = ''number''"
| "typeof (JBigInt n) = ''bigint''"
| "typeof (JString s) = ''string''"
| "typeof (JSymbol d) = ''symbol''"
| "typeof (JStringObject s) = ''object''"
| "typeof (JFunction t) = ''function''"
| "typeof (JObject ps) = ''object''"
| "typeof (JSHandle d ro) = ''object''"

definition Object_is :: "jsvalue \<Rightarrow> number \<Rightarrow> bool" where
  \<comment> \<open>\<open>Object.is(arg, x)\<close> for a Number \<open>x\<close>: SameValue, which tells \<open>-0\<close> from \<open>+0\<close>
      and finds \<open>NaN\<close> equal to itself.\<close>
  "Object_is arg x = (arg = JNumber x)"

fun ToBoolean :: "jsvalue \<Rightarrow> bool" where
  \<comment> \<open>what \<open>arg && ...\<close> tests\<close>
  "ToBoolean JUndefined = False"
| "ToBoolean JNull = False"
| "ToBoolean (JBoolean b) = b"
| "ToBoolean (JNumber x) = (x \<noteq> NaN \<and> x \<noteq> NegZero \<and> x \<noteq> Finite 0)"
| "ToBoolean (JBigInt n) = (n \<noteq> 0)"
| "ToBoolean (JString s) = (s \<noteq> [])"
| "ToBoolean v = True"

text \<open>
  Line 170 imports the name \<open>JSHandle\<close> as a value from \<open>puppeteer-core\<close>. What the name
  is bound to when the module runs is decided by that package: its class of handles, or
  \<open>undefined\<close> when the package entry has no such export. \<open>x instanceof C\<close> throws a
  TypeError when \<open>C\<close> is not an object, whatever \<open>x\<close> is.
\<close>

datatype importedClass = NotExported | ExportedClass

fun isJSHandle :: "jsvalue \<Rightarrow> bool" where
  "isJSHandle (JSHandle d ro) = True"
| "isJSHandle v = False"

definition instanceof_JSHandle :: "importedClass \<Rightarrow> jsvalue \<Rightarrow> jserror + bool" where
  "instanceof_JSHandle cls v =
     (case cls of
        NotExported \<Rightarrow>
          Inl (JSError TypeError
                 (''Right-hand side of '' @ [CHR 0x27] @ ''instanceof'' @ [CHR 0x27] @ '' is not an object''))
      | ExportedClass \<Rightarrow> Inr (isJSHandle v))"

definition truthy :: "string option \<Rightarrow> bool" where
  \<comment> \<open>the test \<open>if (s)\<close> on an optional string: absent and empty are both falsy\<close>
  "truthy s = (case s of None \<Rightarrow> False | Some t \<Rightarrow> t \<noteq> [])"

definition String_startsWith :: "string \<Rightarrow> string \<Rightarrow> bool" where
  "String_startsWith s p = (take (length p) s = p)"

definition String_endsWith :: "string \<Rightarrow> string \<Rightarrow> bool" where
  "String_endsWith s p = (length p \<le> length s \<and> drop (length s - length p) s = p)"

fun String_includes :: "string \<Rightarrow> string \<Rightarrow> bool" where
  "String_includes [] p = (p = [])"
| "String_includes (c # cs) p = (String_startsWith (c # cs) p \<or> String_includes cs p)"

fun String_replace :: "string \<Rightarrow> char \<Rightarrow> string \<Rightarrow> string" where
  \<comment> \<open>\<open>s.replace(c, r)\<close> with a one-character string pattern: the first occurrence only\<close>
  "String_replace [] c r = []"
| "String_replace (x # xs) c r = (if x = c then r @ xs else x # String_replace xs c r)"

fun splitOn :: "char \<Rightarrow> string \<Rightarrow> string \<Rightarrow> string list" where
  \<comment> \<open>\<open>s.split(c)\<close>, with the piece read so far as accumulator\<close>
  "splitOn c acc [] = [acc]"
| "splitOn c acc (x # xs) = (if x = c then acc # splitOn c [] xs else splitOn c (acc @ [x]) xs)"

definition String_split :: "string \<Rightarrow> char \<Rightarrow> string list" where
  "String_split s c = splitOn c [] s"

subsection \<open>Big integers: \<open>toString()\<close> and \<open>BigInt(string)\<close>\<close>

definition digitChar :: "nat \<Rightarrow> char" where
  \<comment> \<open>the digit of a value below ten, the only values \<open>digitsOfNat\<close> asks for\<close>
  "digitChar d = ''0123456789'' ! d"

fun digitsOfNat :: "nat \<Rightarrow> string" where
  "digitsOfNat n = (if n < 10 then [digitChar n] else digitsOfNat (n div 10) @ [digitChar (n mod 10)])"

declare digitsOfNat.simps [simp del]

definition bigintToString :: "int \<Rightarrow> string" where
  \<comment> \<open>\<open>BigInt.prototype.toString()\<close>: decimal, with a minus sign for a negative value\<close>
  "bigintToString n = (if n < 0 then CHR ''-'' # digitsOfNat (nat (- n)) else digitsOfNat (nat n))"

definition isStrWhiteSpaceChar :: "char \<Rightarrow> bool" where
  \<comment> \<open>WhiteSpace and LineTerminator below 256: TAB, LF, VT, FF, CR, SP, NBSP\<close>
  "isStrWhiteSpaceChar c = ((of_char c :: nat) \<in> {9, 10, 11, 12, 13, 32, 160})"

definition String_trim :: "string \<Rightarrow> string" where
  "String_trim s = rev (dropWhile isStrWhiteSpaceChar (rev (dropWhile isStrWhiteSpaceChar s)))"

definition digitValue :: "char \<Rightarrow> nat option" where
  "digitValue c = (let k = (of_char c :: nat) in
     if 48 \<le> k \<and> k \<le> 57 then Some (k - 48)
     else if 97 \<le> k \<and> k \<le> 102 then Some (k - 87)
     else if 65 \<le> k \<and> k \<le> 70 then Some (k - 55)
     else None)"

fun parseDigitsAcc :: "nat \<Rightarrow> nat \<Rightarrow> string \<Rightarrow> nat option" where
  "parseDigitsAcc r acc [] = Some acc"
| "parseDigitsAcc r acc (c # cs) =
     (case digitValue c of
        None \<Rightarrow> None
      | Some d \<Rightarrow> if d < r then parseDigitsAcc r (acc * r + d) cs else None)"

definition parseDigits :: "nat \<Rightarrow> string \<Rightarrow> nat option" where
  "parseDigits r s = (if s = [] then None else parseDigitsAcc r 0 s)"

definition StringToBigInt :: "string \<Rightarrow> int option" where
  \<comment> \<open>the StringIntegerLiteral grammar: optional white space around a signed decimal
      integer or an unsigned \<open>0x\<close>, \<open>0o\<close>, \<open>0b\<close> literal; only white space is zero\<close>
  "StringToBigInt s = (let t = String_trim s in
     if t = [] then Some 0
     else if take 2 t = ''0x'' \<or> take 2 t = ''0X'' then map_option int (parseDigits 16 (drop 2 t))
     else if take 2 t = ''0o'' \<or> take 2 t = ''0O'' then map_option int (parseDigits 8 (drop 2 t))
     else if take 2 t = ''0b'' \<or> take 2 t = ''0B'' then map_option int (parseDigits 2 (drop 2 t))
     else if hd t = CHR ''-'' then map_option (\<lambda>k. - int k) (parseDigits 10 (tl t))
     else if hd t = CHR ''+'' then map_option int (parseDigits 10 (tl t))
     else map_option int (parseDigits 10 t))"

definition BigInt :: "string \<Rightarrow> jserror + jsvalue" where
  \<comment> \<open>\<open>BigInt(s)\<close> on a string: a SyntaxError when the text is no integer literal\<close>
  "BigInt s = (case StringToBigInt s of
     None \<Rightarrow> Inl (JSError SyntaxError (''Cannot convert '' @ s @ '' to a BigInt''))
   | Some n \<Rightarrow> Inr (JBigInt n))"

section \<open>The value marshaller\<close>

definition convertArgument :: "importedClass \<Rightarrow> jsvalue \<Rightarrow> jserror + CallArgument" where
  \<comment> \<open>the first parameter is what the imported name \<open>JSHandle\<close> is bound to\<close>
  "convertArgument JSHandle_class arg =
    (if typeof arg = ''bigint'' then
       (case arg of
          JBigInt n \<Rightarrow> Inr \<lparr>value = None, unserializableValue = Some (bigintToString n @ ''n''), objectId = None\<rparr>
        | _ \<Rightarrow> Inr \<lparr>value = Some arg, unserializableValue = None, objectId = None\<rparr>)
     else if Object_is arg NegZero then
       Inr \<lparr>value = None, unserializableValue = Some ''-0'', objectId = None\<rparr>
     else if Object_is arg Infinity then
       Inr \<lparr>value = None, unserializableValue = Some ''Infinity'', objectId = None\<rparr>
     else if Object_is arg NegInfinity then
       Inr \<lparr>value = None, unserializableValue = Some ''-Infinity'', objectId = None\<rparr>
     else if Object_is arg NaN then
       Inr \<lparr>value = None, unserializableValue = Some ''NaN'', objectId = None\<rparr>
     else
       (case (if ToBoolean arg then instanceof_JSHandle JSHandle_class arg else Inr False) of
          Inl e \<Rightarrow> Inl e
        | Inr isHandle \<Rightarrow>
           if isHandle then
             (if disposed arg then Inl (JSError Error ''JSHandle is disposed!'')
              else if truthy (RemoteObject.unserializableValue (remoteObject arg)) then
                Inr \<lparr>value = None,
                     unserializableValue = RemoteObject.unserializableValue (remoteObject arg),
                     objectId = None\<rparr>
              else if \<not> truthy (RemoteObject.objectId (remoteObject arg)) then
                Inr \<lparr>value = Some (RemoteObject.value' (remoteObject arg)),
                     unserializableValue = None, objectId = None\<rparr>
              else
                Inr \<lparr>value = None, unserializableValue = None,
                     objectId = RemoteObject.objectId (remoteObject arg)\<rparr>)
           else Inr \<lparr>value = Some arg, unserializableValue = None, objectId = None\<rparr>))"

definition valueFromRemoteObject :: "bool \<Rightarrow> RemoteObject \<Rightarrow> jserror + jsvalue" where
  \<comment> \<open>the first parameter is \<open>typeof BigInt !== 'undefined'\<close> in the running engine\<close>
  "valueFromRemoteObject bigIntDefined obj =
    (if truthy (RemoteObject.unserializableValue obj) then
       (case RemoteObject.unserializableValue obj of
          None \<Rightarrow> Inr (RemoteObject.value' obj)
        | Some u \<Rightarrow>
            if type obj = Some ''bigint'' \<and> bigIntDefined then
              BigInt (String_replace u CHR ''n'' '''')
            else if u = ''-0'' then Inr (JNumber NegZero)
            else if u = ''NaN'' then Inr (JNumber NaN)
            else if u = ''Infinity'' then Inr (JNumber Infinity)
            else if u = ''-Infinity'' then Inr (JNumber NegInfinity)
            else Inl (JSError Error (''Unsupported unserializable value: '' @ u)))
     else Inr (RemoteObject.value' obj))"

definition asRemoteObject :: "CallArgument \<Rightarrow> RemoteObject" where
  \<comment> \<open>a CallArgument read through the fields of a RemoteObject: it has no \<open>type\<close>,
      \<open>className\<close> or \<open>description\<close>, and an absent \<open>value\<close> reads as \<open>undefined\<close>\<close>
  "asRemoteObject a =
     RemoteObject None None None
       (case CallArgument.value a of None \<Rightarrow> JUndefined | Some v \<Rightarrow> v)
       (CallArgument.unserializableValue a) (CallArgument.objectId a)"

section \<open>The error translator\<close>

record ExceptionDetails =
  exception :: "RemoteObject option"

record Response =
  exceptionDetails :: "ExceptionDetails option"
  result :: RemoteObject

definition rewriteError :: "jserror \<Rightarrow> jserror + Response" where
  \<comment> \<open>\<open>Inr\<close> is the response returned in place of the rejection, \<open>Inl\<close> the error thrown\<close>
  "rewriteError error =
    (if String_includes (message error) ''Object reference chain is too long'' then
       Inr \<lparr>exceptionDetails = None,
            result = RemoteObject (Some ''undefined'') None None JUndefined None None\<rparr>
     else if String_includes (message error) (''Object couldn'' @ [CHR 0x27] @ ''t be returned by value'') then
       Inr \<lparr>exceptionDetails = None,
            result = RemoteObject (Some ''undefined'') None None JUndefined None None\<rparr>
     else if String_endsWith (message error) ''Cannot find context with specified id''
          \<or> String_endsWith (message error) ''Inspected target navigated or closed'' then
       Inl (JSError Error ''Execution context was destroyed, most likely because of a navigation.'')
     else Inl error)"

section \<open>The source-URL pattern\<close>

text \<open>
  \<open>SOURCE_URL_REGEX\<close> is a sequence of anchors, single characters of a class and starred
  classes. \<open>RegExp.test\<close> asks whether the sequence matches from some position; with the
  \<open>m\<close> flag \<open>^\<close> holds at the start of the text and after a line terminator, \<open>$\<close> at the
  end of the text and before a line terminator. The matcher tries every length of a
  starred class, so it finds a match whenever greedy or lazy backtracking finds one.
\<close>

datatype rxItem = Bol | Eol | One "char \<Rightarrow> bool" | Star "char \<Rightarrow> bool"

definition isLineTerminator :: "char \<Rightarrow> bool" where
  \<comment> \<open>LF and CR (the line terminators below 256)\<close>
  "isLineTerminator c = ((of_char c :: nat) \<in> {10, 13})"

fun matchHere :: "rxItem list \<Rightarrow> char option \<Rightarrow> string \<Rightarrow> bool" where
  \<comment> \<open>the second argument is the character before the current position, if any\<close>
  "matchHere [] prev s = True"
| "matchHere (Bol # items) prev s =
     (if (case prev of None \<Rightarrow> True | Some c \<Rightarrow> isLineTerminator c) then matchHere items prev s
      else False)"
| "matchHere (Eol # items) prev s =
     (if (case s of [] \<Rightarrow> True | c # cs \<Rightarrow> isLineTerminator c) then matchHere items prev s
      else False)"
| "matchHere (One p # items) prev [] = False"
| "matchHere (One p # items) prev (c # cs) =
     (if p c then matchHere items (Some c) cs else False)"
| "matchHere (Star p # items) prev [] = matchHere items prev []"
| "matchHere (Star p # items) prev (c # cs) =
     (if matchHere items prev (c # cs) then True
      else if p c then matchHere (Star p # items) (Some c) cs
      else False)"

fun searchFrom :: "rxItem list \<Rightarrow> char option \<Rightarrow> string \<Rightarrow> bool" where
  "searchFrom r prev [] = matchHere r prev []"
| "searchFrom r prev (c # cs) =
     (if matchHere r prev (c # cs) then True else searchFrom r (Some c) cs)"

definition RegExp_test :: "rxItem list \<Rightarrow> string \<Rightarrow> bool" where
  "RegExp_test r s = searchFrom r None s"

definition literal :: "string \<Rightarrow> rxItem list" where
  "literal s = map (\<lambda>c. One (\<lambda>x. x = c)) s"

definition SOURCE_URL_REGEX :: "rxItem list" where
  \<comment> \<open>\<open>/^[\040\t]*\/\/[@#] sourceURL=\s*(\S*?)\s*$/m\<close>\<close>
  "SOURCE_URL_REGEX =
     [Bol, Star (\<lambda>c. c = CHR '' '' \<or> c = CHR 0x09)]
     @ literal ''//''
     @ [One (\<lambda>c. c = CHR ''@'' \<or> c = CHR ''#'')]
     @ literal '' sourceURL=''
     @ [Star isStrWhiteSpaceChar, Star (\<lambda>c. \<not> isStrWhiteSpaceChar c), Star isStrWhiteSpaceChar, Eol]"

definition EVALUATION_SCRIPT_URL :: string where
  "EVALUATION_SCRIPT_URL = ''__puppeteer_evaluation_script__''"

section \<open>The invoker\<close>

datatype command =
    Runtime_evaluate string int bool bool bool
  | Runtime_callFunctionOn string int "CallArgument list" bool bool bool

text \<open>
  The commands carry, in this order: the program text (\<open>expression\<close> or
  \<open>functionDeclaration\<close>), the context identifier, for \<open>Runtime.callFunctionOn\<close> the
  \<open>arguments\<close>, and the flags \<open>returnByValue\<close>, \<open>awaitPromise\<close>, \<open>userGesture\<close>.

  \<open>client.send\<close> may throw before it returns a promise, or return a promise that
  rejects or resolves.
\<close>

datatype sendOutcome = Throws jserror | Rejects jserror | Resolves Response

record 'f SymbolicateableError =
  stack :: "string option"
  name :: "string option"
  message :: "string option"
  frame :: "int option"
  stackFrame :: "'f list"

datatype 'f thrown = Thrown jserror | ThrownSymbolicateable "'f SymbolicateableError"

text \<open>
  What \<open>_evaluateInternal\<close> takes from outside this file: what the imported name
  \<open>JSHandle\<close> is bound to, the engine's parser behind \<open>new Function(body)\<close>, whether
  \<open>BigInt\<close> exists, \<open>parseStack\<close> of \<open>./parse-browser-error-stack\<close>, the session's
  \<open>send\<close>, and the string conversion of the values whose conversion the language leaves
  to other code: a number that is no safe integer (the shortest decimal that reads back),
  an object with a conversion method of its own, a handle.
\<close>

record 'f env =
  JSHandle_class :: importedClass
  parsesAsFunctionBody :: "string \<Rightarrow> bool"
  bigIntDefined :: bool
  otherToString :: "jsvalue \<Rightarrow> jserror + string"
  parseStack :: "string list \<Rightarrow> 'f list"
  send :: "command \<Rightarrow> sendOutcome"

definition isSafeInteger :: "rat \<Rightarrow> bool" where
  "isSafeInteger q = (of_int \<lfloor>q\<rfloor> = q \<and> \<bar>q\<bar> \<le> 9007199254740991)"

definition ToString :: "'f env \<Rightarrow> jsvalue \<Rightarrow> jserror + string" where
  \<comment> \<open>the conversion a template literal applies: a Symbol throws; an object is converted
      by \<open>toString\<close>, then \<open>valueOf\<close>, a property that is no function being skipped, and
      throws when neither gives a primitive; \<open>Object.prototype.toString\<close> prints
      \<open>[object Object]\<close> and \<open>Object.prototype.valueOf\<close> returns the object\<close>
  "ToString env v =
    (case v of
       JUndefined \<Rightarrow> Inr ''undefined''
     | JNull \<Rightarrow> Inr ''null''
     | JBoolean b \<Rightarrow> Inr (if b then ''true'' else ''false'')
     | JNumber x \<Rightarrow>
        (case x of
           NaN \<Rightarrow> Inr ''NaN''
         | Infinity \<Rightarrow> Inr ''Infinity''
         | NegInfinity \<Rightarrow> Inr ''-Infinity''
         | NegZero \<Rightarrow> Inr ''0''
         | Finite q \<Rightarrow>
            if isSafeInteger q then Inr (bigintToString \<lfloor>q\<rfloor>) else otherToString env v)
     | JBigInt n \<Rightarrow> Inr (bigintToString n)
     | JString s \<Rightarrow> Inr s
     | JSymbol d \<Rightarrow> Inl (JSError TypeError ''Cannot convert a Symbol value to a string'')
     | JObject ps \<Rightarrow>
        (case map_of ps ''toString'' of
           None \<Rightarrow> Inr ''[object Object]''
         | Some (JFunction f) \<Rightarrow> otherToString env v
         | Some m \<Rightarrow>
            (case map_of ps ''valueOf'' of
               Some (JFunction g) \<Rightarrow> otherToString env v
             | _ \<Rightarrow> Inl (JSError TypeError ''Cannot convert object to primitive value'')))
     | _ \<Rightarrow> otherToString env v)"

fun isString :: "jsvalue \<Rightarrow> bool" where
  "isString (JString s) = True"
| "isString (JStringObject s) = True"
| "isString v = False"

fun stringOf :: "jsvalue \<Rightarrow> string" where
  \<comment> \<open>the text of a string or String object, as \<open>test\<close> and \<open>+\<close> read it\<close>
  "stringOf (JString s) = s"
| "stringOf (JStringObject s) = s"
| "stringOf v = []"

fun Function_toString :: "jsvalue \<Rightarrow> string" where
  "Function_toString (JFunction t) = t"
| "Function_toString v = []"

definition raiseRemoteFailure ::
  "(string list \<Rightarrow> 'f list) \<Rightarrow> int option \<Rightarrow> ExceptionDetails \<Rightarrow> 'f thrown" where
  \<comment> \<open>the block \<open>new SymbolicateableError({...}); throw err\<close>; \<open>split\<close> on an absent
      description is a TypeError, thrown while the argument object is built\<close>
  "raiseRemoteFailure parse callerFrame details =
    (let desc = Option.bind (exception details) description in
     case desc of
       None \<Rightarrow> Thrown (JSError TypeError
                 (''Cannot read properties of undefined (reading '' @ [CHR 0x27] @ ''split''
                    @ [CHR 0x27] @ '')''))
     | Some text \<Rightarrow> ThrownSymbolicateable
         \<lparr>stack = desc,
          name = Option.bind (exception details) className,
          message = (case String_split text (CHR 0x0A) of [] \<Rightarrow> None | l # ls \<Rightarrow> Some l),
          frame = callerFrame,
          stackFrame = parse (String_split text (CHR 0x0A))\<rparr>)"

definition decodeResponse :: "'f env \<Rightarrow> int option \<Rightarrow> Response \<Rightarrow> 'f thrown + jsvalue" where
  "decodeResponse env callerFrame response =
    (case exceptionDetails response of
       Some details \<Rightarrow> Inl (raiseRemoteFailure (parseStack env) callerFrame details)
     | None \<Rightarrow>
        (case valueFromRemoteObject (bigIntDefined env) (result response) of
           Inl e \<Rightarrow> Inl (Thrown e)
         | Inr v \<Rightarrow> Inr v))"

definition awaitSend :: "'f env \<Rightarrow> int option \<Rightarrow> sendOutcome \<Rightarrow> (jserror \<Rightarrow> jserror) \<Rightarrow> 'f thrown + jsvalue" where
  \<comment> \<open>\<open>await promise.catch(rewriteError)\<close>, then the decoding of the response; the last
      argument is what the caller's \<open>catch\<close> does to an error thrown by \<open>send\<close> itself\<close>
  "awaitSend env callerFrame outcome onThrow =
    (case outcome of
       Throws e \<Rightarrow> Inl (Thrown (onThrow e))
     | Rejects e \<Rightarrow>
        (case rewriteError e of
           Inl e' \<Rightarrow> Inl (Thrown e')
         | Inr response \<Rightarrow> decodeResponse env callerFrame response)
     | Resolves response \<Rightarrow> decodeResponse env callerFrame response)"

definition repairFunctionText :: "string \<Rightarrow> string" where
  "repairFunctionText functionText =
    (if String_startsWith functionText ''async '' then
       ''async function '' @ drop (length ''async '') functionText
     else ''function '' @ functionText)"

definition serializeFunction :: "(string \<Rightarrow> bool) \<Rightarrow> string \<Rightarrow> jserror + string" where
  "serializeFunction parses functionText =
    (if parses (''('' @ functionText @ '')'') then Inr functionText
     else if parses (''('' @ repairFunctionText functionText @ '')'') then
       Inr (repairFunctionText functionText)
     else Inl (JSError Error ''Passed function is not well-serializable!''))"

fun convertArguments :: "importedClass \<Rightarrow> jsvalue list \<Rightarrow> jserror + CallArgument list" where
  \<comment> \<open>\<open>args.map(convertArgument)\<close>: the first throw ends the map\<close>
  "convertArguments cls [] = Inr []"
| "convertArguments cls (a # as) =
     (case convertArgument cls a of
        Inl e \<Rightarrow> Inl e
      | Inr c \<Rightarrow> (case convertArguments cls as of Inl e \<Rightarrow> Inl e | Inr cs \<Rightarrow> Inr (c # cs)))"

definition circularHint :: "jserror \<Rightarrow> jserror" where
  "circularHint error =
    (if errorClass error = TypeError
        \<and> String_startsWith (jserror.message error) ''Converting circular structure to JSON''
     then JSError (errorClass error) (jserror.message error @ '' Are you passing a nested JSHandle?'')
     else error)"

definition sourceURL_suffix :: string where
  \<comment> \<open>the constant \<open>suffix\<close> of \<open>_evaluateInternal\<close>\<close>
  "sourceURL_suffix = ''//# sourceURL='' @ EVALUATION_SCRIPT_URL"

definition expressionWithSourceUrl :: "string \<Rightarrow> string" where
  "expressionWithSourceUrl expression =
    (if RegExp_test SOURCE_URL_REGEX expression then expression
     else expression @ [CHR 0x0A] @ sourceURL_suffix)"

definition evaluateInternal ::
  "'f env \<Rightarrow> int \<Rightarrow> jsvalue \<Rightarrow> int option \<Rightarrow> jsvalue list \<Rightarrow> ('f thrown + jsvalue) \<times> command list" where
  \<comment> \<open>the result, and the commands handed to \<open>client.send\<close>, in order\<close>
  "evaluateInternal env contextId pageFunction callerFrame args =
    (if isString pageFunction then
       (let cmd = Runtime_evaluate (expressionWithSourceUrl (stringOf pageFunction))
                    contextId True True True
        in (awaitSend env callerFrame (send env cmd) (\<lambda>e. e), [cmd]))
     else if typeof pageFunction \<noteq> ''function'' then
       (case ToString env pageFunction of
          Inl e \<Rightarrow> (Inl (Thrown e), [])
        | Inr printed \<Rightarrow>
           (Inl (Thrown (JSError Error
              (''Expected to get |string| or |function| as the first argument, but got ''
                 @ [CHR 0x22] @ printed @ [CHR 0x22] @ '' instead.''))), []))
     else
       (case serializeFunction (parsesAsFunctionBody env) (Function_toString pageFunction) of
          Inl e \<Rightarrow> (Inl (Thrown e), [])
        | Inr functionText \<Rightarrow>
           (case convertArguments (JSHandle_class env) args of
              Inl e \<Rightarrow> (Inl (Thrown (circularHint e)), [])
            | Inr cargs \<Rightarrow>
               (let cmd = Runtime_callFunctionOn
                            (functionText @ [CHR 0x0A] @ sourceURL_suffix @ [CHR 0x0A])
                            contextId cargs True True True
                in (awaitSend env callerFrame (send env cmd) circularHint, [cmd])))))"

section \<open>Notions the properties are stated with\<close>

definition isDecimalDigit :: "char \<Rightarrow> bool" where
  "isDecimalDigit c = (48 \<le> (of_char c :: nat) \<and> (of_char c :: nat) \<le> 57)"

definition decodeEncoded :: "importedClass \<Rightarrow> bool \<Rightarrow> jsvalue \<Rightarrow> jserror + jsvalue" where
  \<comment> \<open>\<open>valueFromRemoteObject\<close> applied to the CallArgument that \<open>convertArgument\<close> returns\<close>
  "decodeEncoded cls b v =
     (case convertArgument cls v of
        Inl e \<Rightarrow> Inl e
      | Inr a \<Rightarrow> valueFromRemoteObject b (asRemoteObject a))"

definition populatedFields :: "CallArgument \<Rightarrow> nat" where
  \<comment> \<open>how many of the three keys the object literal has\<close>
  "populatedFields a =
     (if CallArgument.value a = None then 0 else 1)
     + (if CallArgument.unserializableValue a = None then 0 else 1)
     + (if CallArgument.objectId a = None then 0 else 1)"

definition lineStart :: "string \<Rightarrow> bool" where
  \<comment> \<open>the text before a position that starts a line\<close>
  "lineStart pre = (pre = [] \<or> isLineTerminator (last pre))"

definition atLineStart :: "char option \<Rightarrow> string \<Rightarrow> bool" where
  \<comment> \<open>the same, for a text that itself follows the character \<open>prev\<close>\<close>
  "atLineStart prev pre =
     (if pre = [] then (case prev of None \<Rightarrow> True | Some c \<Rightarrow> isLineTerminator c)
      else isLineTerminator (last pre))"

definition lineEnd :: "string \<Rightarrow> bool" where
  \<comment> \<open>the text after a position that ends a line\<close>
  "lineEnd rest = (rest = [] \<or> isLineTerminator (hd rest))"

definition hasSourceUrlComment :: "string \<Rightarrow> bool" where
  \<comment> \<open>the pattern in words: at the start of a line, blanks and tabs, then \<open>//@ sourceURL=\<close>
      or \<open>//# sourceURL=\<close>, white space, a run without white space, white space, and
      the end of a line\<close>
  "hasSourceUrlComment s =
     (\<exists>pre blanks c w1 u w2 rest.
        s = pre @ blanks @ ''//'' @ [c] @ '' sourceURL='' @ w1 @ u @ w2 @ rest
        \<and> lineStart pre
        \<and> list_all (\<lambda>b. b = CHR '' '' \<or> b = CHR 0x09) blanks
        \<and> (c = CHR ''@'' \<or> c = CHR ''#'')
        \<and> list_all isStrWhiteSpaceChar w1
        \<and> list_all (\<lambda>x. \<not> isStrWhiteSpaceChar x) u
        \<and> list_all isStrWhiteSpaceChar w2
        \<and> lineEnd rest)"

definition stubEnv ::
  "importedClass \<Rightarrow> (string \<Rightarrow> bool) \<Rightarrow> (jsvalue \<Rightarrow> jserror + string) \<Rightarrow> sendOutcome \<Rightarrow> string env" where
  \<comment> \<open>an environment for concrete runs, from the binding of \<open>JSHandle\<close>, the parser, the
      conversion left to other code and the outcome with which \<open>send\<close> answers every
      command; \<open>BigInt\<close> exists and stack lines are kept as they are\<close>
  "stubEnv cls parses conversion outcome =
     \<lparr>JSHandle_class = cls, parsesAsFunctionBody = parses, bigIntDefined = True,
      otherToString = conversion, parseStack = (\<lambda>lines. lines), send = (\<lambda>cmd. outcome)\<rparr>"

section \<open>Big integers print and parse in decimal\<close>

lemma of_char_digitChar: "d < 10 \<Longrightarrow> (of_char (digitChar d) :: nat) = 48 + d"
proof -
  assume "d < 10"
  then have "d \<in> {0, 1, 2, 3, 4, 5, 6, 7, 8, 9}" by auto
  then show ?thesis by (elim insertE emptyE) (simp_all add: digitChar_def)
qed

lemma digitValue_digitChar: "d < 10 \<Longrightarrow> digitValue (digitChar d) = Some d"
  by (simp add: digitValue_def of_char_digitChar)

lemma isDecimalDigit_digitChar: "d < 10 \<Longrightarrow> isDecimalDigit (digitChar d)"
  by (simp add: isDecimalDigit_def of_char_digitChar)

lemma digitsOfNat_digits: "c \<in> set (digitsOfNat n) \<Longrightarrow> isDecimalDigit c"
proof (induction n rule: digitsOfNat.induct)
  case (1 n)
  show ?case
  proof (cases "n < 10")
    case True
    with "1.prems" show ?thesis
      by (simp add: digitsOfNat.simps [of n] isDecimalDigit_digitChar)
  next
    case False
    with "1.prems" "1.IH" show ?thesis
      by (auto simp add: digitsOfNat.simps [of n] isDecimalDigit_digitChar)
  qed
qed

lemma digitsOfNat_nonempty: "digitsOfNat n \<noteq> []"
  by (subst digitsOfNat.simps) simp

lemma parseDigitsAcc_snoc:
  "parseDigitsAcc r acc (xs @ [c]) =
     (case parseDigitsAcc r acc xs of
        None \<Rightarrow> None
      | Some a \<Rightarrow> (case digitValue c of None \<Rightarrow> None | Some d \<Rightarrow> if d < r then Some (a * r + d) else None))"
  by (induction xs arbitrary: acc) (auto split: option.splits)

lemma parseDigitsAcc_digitsOfNat: "parseDigitsAcc 10 0 (digitsOfNat n) = Some n"
proof (induction n rule: digitsOfNat.induct)
  case (1 n)
  show ?case
  proof (cases "n < 10")
    case True
    then show ?thesis
      by (simp add: digitsOfNat.simps [of n] digitValue_digitChar)
  next
    case False
    then have "parseDigitsAcc 10 0 (digitsOfNat (n div 10)) = Some (n div 10)"
      using "1.IH" by simp
    with False show ?thesis
      by (simp add: digitsOfNat.simps [of n] parseDigitsAcc_snoc digitValue_digitChar)
  qed
qed

lemma parseDigits_digitsOfNat: "parseDigits 10 (digitsOfNat n) = Some n"
  by (simp add: parseDigits_def digitsOfNat_nonempty parseDigitsAcc_digitsOfNat)

lemma decimal_not_space: "isDecimalDigit c \<Longrightarrow> \<not> isStrWhiteSpaceChar c"
  by (auto simp add: isDecimalDigit_def isStrWhiteSpaceChar_def)

lemma String_trim_id:
  assumes "s \<noteq> []" "\<not> isStrWhiteSpaceChar (hd s)" "\<not> isStrWhiteSpaceChar (last s)"
  shows "String_trim s = s"
proof -
  have a: "dropWhile isStrWhiteSpaceChar s = s"
    using assms by (simp add: dropWhile_eq_self_iff)
  have "dropWhile isStrWhiteSpaceChar (rev s) = rev s"
    using assms by (simp add: dropWhile_eq_self_iff hd_rev)
  with a show ?thesis by (simp add: String_trim_def)
qed

lemma take2_neq: "c \<notin> set t \<Longrightarrow> take 2 t \<noteq> [a, c]"
proof
  assume "c \<notin> set t" and e: "take 2 t = [a, c]"
  have "c \<in> set (take 2 t)" by (simp add: e)
  then have "c \<in> set t" by (rule in_set_takeD)
  with \<open>c \<notin> set t\<close> show False by simp
qed

lemma StringToBigInt_plain:
  assumes "t \<noteq> []" "\<forall>c \<in> set t. isDecimalDigit c"
  shows "StringToBigInt t = map_option int (parseDigits 10 t)"
proof -
  have h: "isDecimalDigit (hd t)" and l: "isDecimalDigit (last t)"
    using assms by simp_all
  have trim: "String_trim t = t"
    using assms(1) h l by (simp add: String_trim_id decimal_not_space)
  have nx: "\<And>a c. \<not> isDecimalDigit c \<Longrightarrow> take 2 t \<noteq> [a, c]"
    using assms(2) by (intro take2_neq) auto
  have pre: "take 2 t \<noteq> ''0x''" "take 2 t \<noteq> ''0X''" "take 2 t \<noteq> ''0o''"
    "take 2 t \<noteq> ''0O''" "take 2 t \<noteq> ''0b''" "take 2 t \<noteq> ''0B''"
    by (rule nx, simp add: isDecimalDigit_def)+
  have sg: "hd t \<noteq> CHR ''-''" "hd t \<noteq> CHR ''+''"
    using h by (auto simp add: isDecimalDigit_def)
  show ?thesis
    using assms(1) pre sg by (simp add: StringToBigInt_def trim)
qed

lemma StringToBigInt_minus:
  assumes "t \<noteq> []" "\<forall>c \<in> set t. isDecimalDigit c"
  shows "StringToBigInt (CHR ''-'' # t) = map_option (\<lambda>k. - int k) (parseDigits 10 t)"
proof -
  have l: "isDecimalDigit (last t)"
    using assms by simp
  have "\<not> isStrWhiteSpaceChar (CHR ''-'')"
    by (simp add: isStrWhiteSpaceChar_def)
  then have trim: "String_trim (CHR ''-'' # t) = CHR ''-'' # t"
    using assms(1) l by (simp add: String_trim_id decimal_not_space)
  have nx: "\<And>a c. \<not> isDecimalDigit c \<Longrightarrow> c \<noteq> CHR ''-'' \<Longrightarrow> take 2 (CHR ''-'' # t) \<noteq> [a, c]"
    using assms(2) by (intro take2_neq) auto
  have pre: "take 2 (CHR ''-'' # t) \<noteq> ''0x''" "take 2 (CHR ''-'' # t) \<noteq> ''0X''"
    "take 2 (CHR ''-'' # t) \<noteq> ''0o''" "take 2 (CHR ''-'' # t) \<noteq> ''0O''"
    "take 2 (CHR ''-'' # t) \<noteq> ''0b''" "take 2 (CHR ''-'' # t) \<noteq> ''0B''"
    by (rule nx, simp add: isDecimalDigit_def, simp)+
  show ?thesis
    using pre by (simp add: StringToBigInt_def trim del: take_Cons_numeral)
qed

lemma StringToBigInt_bigintToString: "StringToBigInt (bigintToString n) = Some n"
proof (cases "n < 0")
  case True
  have "StringToBigInt (CHR ''-'' # digitsOfNat (nat (- n))) = Some n"
    using True
    by (simp add: StringToBigInt_minus digitsOfNat_nonempty digitsOfNat_digits parseDigits_digitsOfNat)
  with True show ?thesis by (simp add: bigintToString_def)
next
  case False
  have "StringToBigInt (digitsOfNat (nat n)) = Some n"
    using False
    by (simp add: StringToBigInt_plain digitsOfNat_nonempty digitsOfNat_digits parseDigits_digitsOfNat)
  with False show ?thesis by (simp add: bigintToString_def)
qed

lemma String_replace_snoc: "c \<notin> set s \<Longrightarrow> String_replace (s @ [c]) c [] = s"
  by (induction s) auto

lemma n_notin_bigintToString: "CHR ''n'' \<notin> set (bigintToString n)"
proof
  assume a: "CHR ''n'' \<in> set (bigintToString n)"
  have "\<not> isDecimalDigit (CHR ''n'')" by (simp add: isDecimalDigit_def)
  with a show False
    by (auto simp add: bigintToString_def dest: digitsOfNat_digits split: if_splits)
qed

lemma bigintToString_nonempty: "bigintToString n \<noteq> []"
  by (simp add: bigintToString_def digitsOfNat_nonempty)

lemma BigInt_of_tag: "BigInt (String_replace (bigintToString n @ ''n'') CHR ''n'' '''') = Inr (JBigInt n)"
  by (simp add: String_replace_snoc n_notin_bigintToString BigInt_def StringToBigInt_bigintToString)

section \<open>Properties of the value marshaller\<close>

text \<open>
  Whatever the name \<open>JSHandle\<close> is bound to, the numeric sentinels are encoded before the
  class test of line 333 is reached, and a falsy value skips the test.
\<close>

lemma convertArgument_sentinels:
  "convertArgument cls (JBigInt n) =
     Inr \<lparr>value = None, unserializableValue = Some (bigintToString n @ ''n''), objectId = None\<rparr>
   \<and> convertArgument cls (JNumber NegZero) =
     Inr \<lparr>value = None, unserializableValue = Some ''-0'', objectId = None\<rparr>
   \<and> convertArgument cls (JNumber Infinity) =
     Inr \<lparr>value = None, unserializableValue = Some ''Infinity'', objectId = None\<rparr>
   \<and> convertArgument cls (JNumber NegInfinity) =
     Inr \<lparr>value = None, unserializableValue = Some ''-Infinity'', objectId = None\<rparr>
   \<and> convertArgument cls (JNumber NaN) =
     Inr \<lparr>value = None, unserializableValue = Some ''NaN'', objectId = None\<rparr>"
  by (simp add: convertArgument_def Object_is_def)

lemma convertArgument_falsy:
  assumes "\<not> ToBoolean v" and "typeof v \<noteq> ''bigint''" and "typeof v \<noteq> ''number'' \<or> v = JNumber (Finite 0)"
  shows "convertArgument cls v = Inr \<lparr>value = Some v, unserializableValue = None, objectId = None\<rparr>"
  using assms by (cases v) (auto simp add: convertArgument_def Object_is_def)

text \<open>
  With the name bound to the class of handles, a finite number other than \<open>-0\<close> and every
  other value that is no handle is forwarded in the plain \<open>value\<close> field, and a handle
  that is not disposed is forwarded by its tag, else its plain value, else its identifier.
\<close>

lemma convertArgument_with_class:
  "convertArgument ExportedClass (JNumber (Finite q)) =
     Inr \<lparr>value = Some (JNumber (Finite q)), unserializableValue = None, objectId = None\<rparr>
   \<and> (typeof v \<noteq> ''bigint'' \<and> typeof v \<noteq> ''number'' \<and> \<not> isJSHandle v \<longrightarrow>
        convertArgument ExportedClass v =
          Inr \<lparr>value = Some v, unserializableValue = None, objectId = None\<rparr>)
   \<and> convertArgument ExportedClass (JSHandle False obj) =
     Inr (if truthy (RemoteObject.unserializableValue obj) then
            \<lparr>value = None, unserializableValue = RemoteObject.unserializableValue obj, objectId = None\<rparr>
          else if \<not> truthy (RemoteObject.objectId obj) then
            \<lparr>value = Some (RemoteObject.value' obj), unserializableValue = None, objectId = None\<rparr>
          else
            \<lparr>value = None, unserializableValue = None, objectId = RemoteObject.objectId obj\<rparr>)
   \<and> convertArgument ExportedClass (JSHandle True obj) = Inl (JSError Error ''JSHandle is disposed!'')"
  by (cases v) (simp_all add: convertArgument_def Object_is_def instanceof_JSHandle_def)

text \<open>
  With the name unbound, as when the package entry does not export it, every truthy value
  that reaches line 333 makes \<open>instanceof\<close> throw.
\<close>

lemma convertArgument_not_exported:
  assumes "ToBoolean v" and "typeof v \<noteq> ''bigint''"
    and "v \<noteq> JNumber Infinity" and "v \<noteq> JNumber NegInfinity"
  shows "convertArgument NotExported v =
     Inl (JSError TypeError
            (''Right-hand side of '' @ [CHR 0x27] @ ''instanceof'' @ [CHR 0x27] @ '' is not an object''))"
  using assms by (cases v) (auto simp add: convertArgument_def Object_is_def instanceof_JSHandle_def)

text \<open>
  C2 does not hold of the code for the values forwarded as plain values: where
  \<open>puppeteer-core\<close> exports no \<open>JSHandle\<close>, the finite number 5 is not forwarded as
  \<open>{value: 5}\<close>: line 333 throws a TypeError, and the call of the shorthand method
  \<open>increment\<close> with the argument 5 fails before a command is handed to the transport.
\<close>

theorem convertArgument_plain_value_throws:
  "convertArgument NotExported (JNumber (Finite 5)) =
     Inl (JSError TypeError
            (''Right-hand side of '' @ [CHR 0x27] @ ''instanceof'' @ [CHR 0x27] @ '' is not an object''))
   \<and> evaluateInternal
        (stubEnv NotExported (\<lambda>body. body = ''(function increment(x) { return x+1 })'')
           (\<lambda>v. Inr [])
           (Resolves \<lparr>exceptionDetails = None,
                      result = RemoteObject (Some ''number'') None (Some ''6'') (JNumber (Finite 6)) None None\<rparr>))
        1 (JFunction ''increment(x) { return x+1 }'') None [JNumber (Finite 5)]
     = (Inl (Thrown (JSError TypeError
            (''Right-hand side of '' @ [CHR 0x27] @ ''instanceof'' @ [CHR 0x27] @ '' is not an object''))),
        [])"
  by (simp add: evaluateInternal_def stubEnv_def serializeFunction_def repairFunctionText_def
      String_startsWith_def convertArgument_def Object_is_def instanceof_JSHandle_def
      circularHint_def)

text \<open>
  C9 does not hold of the code: where \<open>puppeteer-core\<close> exports no \<open>JSHandle\<close>, a handle
  that is not disposed is not forwarded at all, whether it carries a tag, a plain value or
  an identifier: line 333 throws a TypeError for it.
\<close>

theorem convertArgument_live_handle_throws:
  "convertArgument NotExported
     (JSHandle False (RemoteObject (Some ''object'') (Some ''Object'') (Some ''Object'') JUndefined None (Some ''7'')))
     = Inl (JSError TypeError
            (''Right-hand side of '' @ [CHR 0x27] @ ''instanceof'' @ [CHR 0x27] @ '' is not an object''))
   \<and> convertArgument NotExported (JSHandle False obj)
     = Inl (JSError TypeError
            (''Right-hand side of '' @ [CHR 0x27] @ ''instanceof'' @ [CHR 0x27] @ '' is not an object''))"
  by (simp add: convertArgument_def Object_is_def instanceof_JSHandle_def)

text \<open>
  C1, as stated, fails for big integers: the CallArgument of \<open>5n\<close> has no \<open>type\<close>
  field, so \<open>valueFromRemoteObject\<close> does not take its big-integer branch and raises,
  whatever the name \<open>JSHandle\<close> is bound to.
\<close>

theorem roundtrip_counterexample:
  "decodeEncoded NotExported True (JBigInt 5)
     = Inl (JSError Error ''Unsupported unserializable value: 5n'')
   \<and> decodeEncoded ExportedClass True (JBigInt 5)
     = Inl (JSError Error ''Unsupported unserializable value: 5n'')"
  by (simp add: decodeEncoded_def convertArgument_def valueFromRemoteObject_def asRemoteObject_def
      truthy_def bigintToString_def digitsOfNat.simps digitChar_def)

text \<open>
  C1, amended. Decoding the CallArgument of negative zero, NaN, \<open>Infinity\<close> and
  \<open>-Infinity\<close> gives the value back, negative zero being recovered as a value other
  than positive zero, which is forwarded in the plain \<open>value\<close> field and decodes to
  itself. A big integer \<open>n\<close> is encoded as its decimal text followed by \<open>n\<close>, the text
  reads back as \<open>n\<close>, and a remote object that carries this tag together with the type
  \<open>bigint\<close> decodes to \<open>n\<close> where \<open>BigInt\<close> exists. All of this holds whatever the name
  \<open>JSHandle\<close> is bound to; nothing is said of the other finite numbers.
\<close>

theorem roundtrip:
  "decodeEncoded cls b (JNumber NegZero) = Inr (JNumber NegZero)
   \<and> decodeEncoded cls b (JNumber NaN) = Inr (JNumber NaN)
   \<and> decodeEncoded cls b (JNumber Infinity) = Inr (JNumber Infinity)
   \<and> decodeEncoded cls b (JNumber NegInfinity) = Inr (JNumber NegInfinity)
   \<and> convertArgument cls (JNumber (Finite 0)) =
       Inr \<lparr>value = Some (JNumber (Finite 0)), unserializableValue = None, objectId = None\<rparr>
   \<and> decodeEncoded cls b (JNumber (Finite 0)) = Inr (JNumber (Finite 0))
   \<and> decodeEncoded cls b (JNumber NegZero) \<noteq> decodeEncoded cls b (JNumber (Finite 0))
   \<and> convertArgument cls (JBigInt n) =
       Inr \<lparr>value = None, unserializableValue = Some (bigintToString n @ ''n''), objectId = None\<rparr>
   \<and> StringToBigInt (bigintToString n) = Some n
   \<and> valueFromRemoteObject True
        (RemoteObject (Some ''bigint'') cn d v (Some (bigintToString n @ ''n'')) oid) = Inr (JBigInt n)"
proof -
  have sentinels:
    "decodeEncoded cls b (JNumber NegZero) = Inr (JNumber NegZero)"
    "decodeEncoded cls b (JNumber NaN) = Inr (JNumber NaN)"
    "decodeEncoded cls b (JNumber Infinity) = Inr (JNumber Infinity)"
    "decodeEncoded cls b (JNumber NegInfinity) = Inr (JNumber NegInfinity)"
    by (simp_all add: decodeEncoded_def convertArgument_def Object_is_def
        valueFromRemoteObject_def asRemoteObject_def truthy_def)
  have enc: "convertArgument cls (JNumber (Finite 0)) =
       Inr \<lparr>value = Some (JNumber (Finite 0)), unserializableValue = None, objectId = None\<rparr>"
    "convertArgument cls (JBigInt n) =
       Inr \<lparr>value = None, unserializableValue = Some (bigintToString n @ ''n''), objectId = None\<rparr>"
    by (simp_all add: convertArgument_def Object_is_def)
  have zero: "decodeEncoded cls b (JNumber (Finite 0)) = Inr (JNumber (Finite 0))"
    by (simp add: decodeEncoded_def enc valueFromRemoteObject_def asRemoteObject_def truthy_def)
  have big: "valueFromRemoteObject True
        (RemoteObject (Some ''bigint'') cn d v (Some (bigintToString n @ ''n'')) oid) = Inr (JBigInt n)"
    using BigInt_of_tag [of n] by (simp add: valueFromRemoteObject_def truthy_def)
  show ?thesis
    using sentinels zero enc big StringToBigInt_bigintToString [of n]
    by simp
qed

text \<open>
  C4, as stated, fails: the big-integer branch is chosen by the \<open>type\<close> field of the
  response, not by the shape of the tag. A digit string with the suffix \<open>n\<close> under the
  type \<open>number\<close> raises; the tags \<open>-0\<close> and \<open>NaN\<close> under the type \<open>bigint\<close> give the
  big integer zero and a SyntaxError.
\<close>

theorem valueFromRemoteObject_counterexample:
  "valueFromRemoteObject True (RemoteObject (Some ''number'') None None JUndefined (Some ''5n'') None)
     = Inl (JSError Error ''Unsupported unserializable value: 5n'')
   \<and> valueFromRemoteObject True (RemoteObject (Some ''bigint'') None None JUndefined (Some ''-0'') None)
     = Inr (JBigInt 0)
   \<and> valueFromRemoteObject True (RemoteObject (Some ''bigint'') None None JUndefined (Some ''NaN'') None)
     = Inl (JSError SyntaxError ''Cannot convert NaN to a BigInt'')"
  by (simp add: valueFromRemoteObject_def truthy_def BigInt_def StringToBigInt_def String_trim_def
      isStrWhiteSpaceChar_def parseDigits_def digitValue_def)

text \<open>
  C4, amended. For a response that carries a non-empty unserializable-value tag: when its
  type is \<open>bigint\<close> and \<open>BigInt\<close> exists, the result is \<open>BigInt\<close> of the tag without its
  first \<open>n\<close>, which for the decimal text of \<open>n\<close> followed by \<open>n\<close> is the big integer
  \<open>n\<close>; otherwise the tags \<open>-0\<close>, \<open>NaN\<close>, \<open>Infinity\<close>, \<open>-Infinity\<close> give the
  corresponding numbers and every other tag raises the error
  \<open>Unsupported unserializable value\<close>.
\<close>

theorem valueFromRemoteObject_unserializable:
  assumes "RemoteObject.unserializableValue obj = Some u" and "u \<noteq> []"
  shows "valueFromRemoteObject b obj =
     (if type obj = Some ''bigint'' \<and> b then BigInt (String_replace u CHR ''n'' [])
      else if u = ''-0'' then Inr (JNumber NegZero)
      else if u = ''NaN'' then Inr (JNumber NaN)
      else if u = ''Infinity'' then Inr (JNumber Infinity)
      else if u = ''-Infinity'' then Inr (JNumber NegInfinity)
      else Inl (JSError Error (''Unsupported unserializable value: '' @ u)))
   \<and> (type obj = Some ''bigint'' \<and> b \<and> u = bigintToString n @ ''n'' \<longrightarrow>
        valueFromRemoteObject b obj = Inr (JBigInt n))"
  using assms BigInt_of_tag [of n] by (simp add: valueFromRemoteObject_def truthy_def)

theorem valueFromRemoteObject_unserializable_witness:
  "valueFromRemoteObject True (RemoteObject (Some ''bigint'') None None JUndefined (Some ''42n'') None)
     = Inr (JBigInt 42)
   \<and> valueFromRemoteObject True (RemoteObject (Some ''number'') None None JUndefined (Some ''-0'') None)
     = Inr (JNumber NegZero)
   \<and> valueFromRemoteObject True (RemoteObject (Some ''number'') None None JUndefined (Some ''42'') None)
     = Inl (JSError Error ''Unsupported unserializable value: 42'')"
proof -
  have a: "valueFromRemoteObject True (RemoteObject (Some ''bigint'') None None JUndefined (Some ''42n'') None)
     = Inr (JBigInt 42)"
    using valueFromRemoteObject_unserializable
      [of "RemoteObject (Some ''bigint'') None None JUndefined (Some ''42n'') None" "''42n''" True 42, THEN conjunct2]
    by (simp add: bigintToString_def digitsOfNat.simps digitChar_def)
  have b: "valueFromRemoteObject True (RemoteObject (Some ''number'') None None JUndefined (Some ''-0'') None)
     = Inr (JNumber NegZero)"
    using valueFromRemoteObject_unserializable
      [of "RemoteObject (Some ''number'') None None JUndefined (Some ''-0'') None" "''-0''" True 0, THEN conjunct1]
    by simp
  have c: "valueFromRemoteObject True (RemoteObject (Some ''number'') None None JUndefined (Some ''42'') None)
     = Inl (JSError Error ''Unsupported unserializable value: 42'')"
    using valueFromRemoteObject_unserializable
      [of "RemoteObject (Some ''number'') None None JUndefined (Some ''42'') None" "''42''" True 0, THEN conjunct1]
    by simp
  from a b c show ?thesis by simp
qed

section \<open>Properties of the error translator\<close>

text \<open>
  The string tests of the source are the usual notions of prefix, suffix and contiguous
  sublist.
\<close>

lemma String_startsWith_prefix: "String_startsWith s p \<longleftrightarrow> prefix p s"
proof
  assume "String_startsWith s p"
  then have "take (length p) s = p" by (simp add: String_startsWith_def)
  then have "s = p @ drop (length p) s" by (metis append_take_drop_id)
  then show "prefix p s" by (metis prefixI)
next
  assume "prefix p s"
  then obtain zs where "s = p @ zs" by (auto simp add: prefix_def)
  then show "String_startsWith s p" by (simp add: String_startsWith_def)
qed

lemma String_endsWith_suffix: "String_endsWith s p \<longleftrightarrow> suffix p s"
proof
  assume "String_endsWith s p"
  then have "drop (length s - length p) s = p" by (simp add: String_endsWith_def)
  then have "s = take (length s - length p) s @ p" by (metis append_take_drop_id)
  then show "suffix p s" by (metis suffixI)
next
  assume "suffix p s"
  then obtain zs where "s = zs @ p" by (auto simp add: suffix_def)
  then show "String_endsWith s p" by (simp add: String_endsWith_def)
qed

lemma String_includes_sublist: "String_includes s p \<longleftrightarrow> sublist p s"
  by (induction s) (simp_all add: String_startsWith_prefix sublist_Cons_right)

text \<open>
  C3, as stated, fails: the two phrases of the empty success are tested first, so a
  message that contains one of them and also ends with
  \<open>Cannot find context with specified id\<close> is turned into the empty success, not into
  the execution-context-destroyed error.
\<close>

theorem rewriteError_counterexample:
  "String_endsWith ''Object reference chain is too long: Cannot find context with specified id''
     ''Cannot find context with specified id''
   \<and> rewriteError (JSError Error
        ''Object reference chain is too long: Cannot find context with specified id'')
     = Inr \<lparr>exceptionDetails = None,
            result = RemoteObject (Some ''undefined'') None None JUndefined None None\<rparr>"
  by (simp add: rewriteError_def String_startsWith_def String_endsWith_def)

text \<open>
  C3, amended. \<open>rewriteError\<close> has exactly three outcomes. A message that contains
  \<open>Object reference chain is too long\<close> or \<open>Object couldn't be returned by value\<close> gives
  the empty success, and the awaited call resolves to \<open>undefined\<close>. A message that contains
  neither phrase and ends with \<open>Cannot find context with specified id\<close> or
  \<open>Inspected target navigated or closed\<close> gives the canonical
  execution-context-destroyed error. Every other error is thrown again unchanged.
\<close>

theorem rewriteError_classification:
  "rewriteError error =
     (if sublist ''Object reference chain is too long'' (jserror.message error)
         \<or> sublist (''Object couldn'' @ [CHR 0x27] @ ''t be returned by value'') (jserror.message error)
      then Inr \<lparr>exceptionDetails = None,
                 result = RemoteObject (Some ''undefined'') None None JUndefined None None\<rparr>
      else if suffix ''Cannot find context with specified id'' (jserror.message error)
              \<or> suffix ''Inspected target navigated or closed'' (jserror.message error)
      then Inl (JSError Error ''Execution context was destroyed, most likely because of a navigation.'')
      else Inl error)
   \<and> awaitSend env callerFrame (Rejects error) onThrow =
     (if sublist ''Object reference chain is too long'' (jserror.message error)
         \<or> sublist (''Object couldn'' @ [CHR 0x27] @ ''t be returned by value'') (jserror.message error)
      then Inr JUndefined
      else if suffix ''Cannot find context with specified id'' (jserror.message error)
              \<or> suffix ''Inspected target navigated or closed'' (jserror.message error)
      then Inl (Thrown (JSError Error ''Execution context was destroyed, most likely because of a navigation.''))
      else Inl (Thrown error))"
proof -
  have r: "rewriteError error =
     (if sublist ''Object reference chain is too long'' (jserror.message error)
         \<or> sublist (''Object couldn'' @ [CHR 0x27] @ ''t be returned by value'') (jserror.message error)
      then Inr \<lparr>exceptionDetails = None,
                 result = RemoteObject (Some ''undefined'') None None JUndefined None None\<rparr>
      else if suffix ''Cannot find context with specified id'' (jserror.message error)
              \<or> suffix ''Inspected target navigated or closed'' (jserror.message error)
      then Inl (JSError Error ''Execution context was destroyed, most likely because of a navigation.'')
      else Inl error)"
    unfolding rewriteError_def String_includes_sublist String_endsWith_suffix by simp
  have d: "decodeResponse env callerFrame
             \<lparr>exceptionDetails = None,
              result = RemoteObject (Some ''undefined'') None None JUndefined None None\<rparr>
           = Inr JUndefined"
    by (simp add: decodeResponse_def valueFromRemoteObject_def truthy_def)
  have a: "awaitSend env callerFrame (Rejects error) onThrow =
      (case rewriteError error of
         Inl e' \<Rightarrow> Inl (Thrown e')
       | Inr response \<Rightarrow> decodeResponse env callerFrame response)"
    by (simp add: awaitSend_def)
  show ?thesis
    unfolding a unfolding r using d by simp
qed

theorem rewriteError_classification_witness:
  "rewriteError (JSError Error ''Protocol error: Cannot find context with specified id'')
     = Inl (JSError Error ''Execution context was destroyed, most likely because of a navigation.'')
   \<and> rewriteError (JSError TypeError ''Session closed.'') = Inl (JSError TypeError ''Session closed.'')"
proof -
  have a: "\<not> sublist ''Object reference chain is too long'' ''Protocol error: Cannot find context with specified id''"
    "\<not> sublist (''Object couldn'' @ [CHR 0x27] @ ''t be returned by value'') ''Protocol error: Cannot find context with specified id''"
    "suffix ''Cannot find context with specified id'' ''Protocol error: Cannot find context with specified id''"
    "\<not> sublist ''Object reference chain is too long'' ''Session closed.''"
    "\<not> sublist (''Object couldn'' @ [CHR 0x27] @ ''t be returned by value'') ''Session closed.''"
    "\<not> suffix ''Cannot find context with specified id'' ''Session closed.''"
    "\<not> suffix ''Inspected target navigated or closed'' ''Session closed.''"
    unfolding String_includes_sublist [symmetric] String_endsWith_suffix [symmetric]
    by (simp_all add: String_startsWith_def String_endsWith_def)
  show ?thesis
    using rewriteError_classification
            [of "JSError Error ''Protocol error: Cannot find context with specified id''",
             THEN conjunct1]
          rewriteError_classification [of "JSError TypeError ''Session closed.''", THEN conjunct1] a
    by simp
qed

section \<open>Properties of the invoker\<close>

lemma convertArgument_disposed_fails: "isl (convertArgument cls (JSHandle True obj))"
  by (cases cls) (simp_all add: convertArgument_def Object_is_def instanceof_JSHandle_def)

lemma convertArguments_disposed_fails:
  "JSHandle True obj \<in> set args \<Longrightarrow> isl (convertArguments cls args)"
proof (induction args)
  case Nil
  then show ?case by simp
next
  case (Cons a args)
  show ?case
  proof (cases "convertArgument cls a")
    case (Inl e)
    then show ?thesis by simp
  next
    case (Inr c)
    then have "a \<noteq> JSHandle True obj"
      using convertArgument_disposed_fails [of cls obj] by auto
    with Cons.prems have "JSHandle True obj \<in> set args" by simp
    then have "isl (convertArguments cls args)"
      by (rule Cons.IH)
    with Inr show ?thesis by (cases "convertArguments cls args") simp_all
  qed
qed

text \<open>
  With the name \<open>JSHandle\<close> bound to the class of handles, a disposed handle among the
  arguments of a serializable callable makes the call fail with the handle-disposed error.
\<close>

lemma convertArgument_error:
  "convertArgument ExportedClass a = Inl e \<Longrightarrow> e = JSError Error ''JSHandle is disposed!''"
  by (cases a)
    (auto simp add: convertArgument_def Object_is_def instanceof_JSHandle_def split: if_splits)

lemma convertArguments_disposed:
  "JSHandle True obj \<in> set args \<Longrightarrow>
     convertArguments ExportedClass args = Inl (JSError Error ''JSHandle is disposed!'')"
proof -
  assume "JSHandle True obj \<in> set args"
  then have "isl (convertArguments ExportedClass args)"
    by (rule convertArguments_disposed_fails)
  then obtain e where e: "convertArguments ExportedClass args = Inl e"
    by (cases "convertArguments ExportedClass args") simp_all
  have "convertArguments ExportedClass xs = Inl x \<Longrightarrow> x = JSError Error ''JSHandle is disposed!''"
    for xs x
  proof (induction xs)
    case Nil
    then show ?case by simp
  next
    case (Cons a xs)
    then show ?case
      by (auto split: sum.splits dest: convertArgument_error)
  qed
  with e show ?thesis by simp
qed

lemma disposed_handle_with_class:
  assumes "JSHandle True obj \<in> set args"
    and "JSHandle_class env = ExportedClass"
    and "serializeFunction (parsesAsFunctionBody env) t = Inr functionText"
  shows "evaluateInternal env contextId (JFunction t) callerFrame args
           = (Inl (Thrown (JSError Error ''JSHandle is disposed!'')), [])"
  using assms convertArguments_disposed [OF assms(1)]
  by (simp add: evaluateInternal_def circularHint_def)

text \<open>
  C5, as stated, fails for expression evaluation: with a string as program text the
  argument list is never marshalled, so a disposed handle among the arguments goes
  unnoticed and the command is sent.
\<close>

theorem disposed_handle_counterexample:
  "evaluateInternal
     (stubEnv NotExported (\<lambda>body. True) (\<lambda>v. Inr [])
        (Resolves \<lparr>exceptionDetails = None,
                   result = RemoteObject (Some ''number'') None (Some ''2'') (JNumber (Finite 2)) None None\<rparr>))
     1 (JString ''1+1'') None
     [JSHandle True (RemoteObject (Some ''object'') None None JUndefined None (Some ''7''))]
   = (Inr (JNumber (Finite 2)),
      [Runtime_evaluate (''1+1'' @ [CHR 0x0A] @ ''//# sourceURL=__puppeteer_evaluation_script__'')
         1 True True True])"
  by (simp add: evaluateInternal_def stubEnv_def expressionWithSourceUrl_def RegExp_test_def
      SOURCE_URL_REGEX_def literal_def sourceURL_suffix_def EVALUATION_SCRIPT_URL_def
      awaitSend_def decodeResponse_def valueFromRemoteObject_def truthy_def)

text \<open>
  C5, amended. In a function invocation, a disposed handle among the arguments makes the
  call fail before any command is handed to the transport, whether or not the callable's
  text is serializable. In an expression evaluation the arguments are ignored: the call
  behaves as with no arguments and sends its one command.
\<close>

theorem disposed_handle_argument:
  assumes "JSHandle True obj \<in> set args"
  shows "snd (evaluateInternal env contextId (JFunction t) callerFrame args) = []
    \<and> isl (fst (evaluateInternal env contextId (JFunction t) callerFrame args))
    \<and> (isString pageFunction \<longrightarrow>
         evaluateInternal env contextId pageFunction callerFrame args
           = evaluateInternal env contextId pageFunction callerFrame []
         \<and> length (snd (evaluateInternal env contextId pageFunction callerFrame args)) = 1)"
proof -
  have "isl (convertArguments (JSHandle_class env) args)"
    using assms by (rule convertArguments_disposed_fails)
  then obtain e where c: "convertArguments (JSHandle_class env) args = Inl e"
    by (cases "convertArguments (JSHandle_class env) args") simp_all
  have 1: "snd (evaluateInternal env contextId (JFunction t) callerFrame args) = []"
    by (simp add: evaluateInternal_def c split: sum.splits)
  have 2: "isl (fst (evaluateInternal env contextId (JFunction t) callerFrame args))"
    by (simp add: evaluateInternal_def c split: sum.splits)
  have 3: "isString pageFunction \<longrightarrow>
         evaluateInternal env contextId pageFunction callerFrame args
           = evaluateInternal env contextId pageFunction callerFrame []
         \<and> length (snd (evaluateInternal env contextId pageFunction callerFrame args)) = 1"
    by (simp add: evaluateInternal_def Let_def)
  from 1 2 3 show ?thesis by blast
qed

theorem disposed_handle_argument_witness:
  "snd (evaluateInternal
     (stubEnv NotExported (\<lambda>body. True) (\<lambda>v. Inr [])
        (Resolves \<lparr>exceptionDetails = None,
                   result = RemoteObject (Some ''number'') None (Some ''2'') (JNumber (Finite 2)) None None\<rparr>))
     1 (JFunction ''(a, b) => 2'') None
     [JNumber (Finite 0), JSHandle True (RemoteObject (Some ''object'') None None JUndefined None (Some ''7''))])
   = []
   \<and> isl (fst (evaluateInternal
     (stubEnv NotExported (\<lambda>body. True) (\<lambda>v. Inr [])
        (Resolves \<lparr>exceptionDetails = None,
                   result = RemoteObject (Some ''number'') None (Some ''2'') (JNumber (Finite 2)) None None\<rparr>))
     1 (JFunction ''(a, b) => 2'') None
     [JNumber (Finite 0), JSHandle True (RemoteObject (Some ''object'') None None JUndefined None (Some ''7''))]))"
proof -
  have m: "JSHandle True (RemoteObject (Some ''object'') None None JUndefined None (Some ''7''))
       \<in> set [JNumber (Finite 0), JSHandle True (RemoteObject (Some ''object'') None None JUndefined None (Some ''7''))]"
    by simp
  show ?thesis
    by (intro conjI disposed_handle_argument [OF m, THEN conjunct1]
        disposed_handle_argument [OF m, THEN conjunct2, THEN conjunct1])
qed

lemma repairFunctionText_async: "repairFunctionText (''async '' @ r) = ''async function '' @ r"
  by (simp add: repairFunctionText_def String_startsWith_def)

lemma repairFunctionText_plain:
  "\<not> prefix ''async '' t \<Longrightarrow> repairFunctionText t = ''function '' @ t"
  by (simp add: repairFunctionText_def String_startsWith_prefix)

text \<open>
  C6. When the printed text of a callable does not parse in parentheses, one repair is
  made: \<open>function \<close> is inserted right after a leading \<open>async \<close>, and is prepended
  otherwise. If the repaired text does not parse either, the call raises the
  malformed-callable error and no command is handed to the transport; if it parses, it is
  the text that is used, and any command sent carries it as the declaration.
\<close>

theorem callable_repair:
  assumes "\<not> parsesAsFunctionBody env (''('' @ t @ '')'')"
  shows "(\<forall>r. t = ''async '' @ r \<longrightarrow> repairFunctionText t = ''async '' @ ''function '' @ r)
    \<and> (\<not> prefix ''async '' t \<longrightarrow> repairFunctionText t = ''function '' @ t)
    \<and> (\<not> parsesAsFunctionBody env (''('' @ repairFunctionText t @ '')'') \<longrightarrow>
         evaluateInternal env contextId (JFunction t) callerFrame args
           = (Inl (Thrown (JSError Error ''Passed function is not well-serializable!'')), []))
    \<and> (parsesAsFunctionBody env (''('' @ repairFunctionText t @ '')'') \<longrightarrow>
         serializeFunction (parsesAsFunctionBody env) t = Inr (repairFunctionText t)
         \<and> (\<forall>cmd \<in> set (snd (evaluateInternal env contextId (JFunction t) callerFrame args)).
              \<exists>cargs. cmd = Runtime_callFunctionOn
                 (repairFunctionText t @ [CHR 0x0A] @ sourceURL_suffix @ [CHR 0x0A])
                 contextId cargs True True True))"
proof -
  have 1: "\<forall>r. t = ''async '' @ r \<longrightarrow> repairFunctionText t = ''async '' @ ''function '' @ r"
    using repairFunctionText_async by simp
  have 2: "\<not> prefix ''async '' t \<longrightarrow> repairFunctionText t = ''function '' @ t"
    using repairFunctionText_plain by blast
  have 3: "\<not> parsesAsFunctionBody env (''('' @ repairFunctionText t @ '')'') \<longrightarrow>
         evaluateInternal env contextId (JFunction t) callerFrame args
           = (Inl (Thrown (JSError Error ''Passed function is not well-serializable!'')), [])"
    using assms by (simp add: evaluateInternal_def serializeFunction_def)
  have 4: "parsesAsFunctionBody env (''('' @ repairFunctionText t @ '')'') \<longrightarrow>
         serializeFunction (parsesAsFunctionBody env) t = Inr (repairFunctionText t)
         \<and> (\<forall>cmd \<in> set (snd (evaluateInternal env contextId (JFunction t) callerFrame args)).
              \<exists>cargs. cmd = Runtime_callFunctionOn
                 (repairFunctionText t @ [CHR 0x0A] @ sourceURL_suffix @ [CHR 0x0A])
                 contextId cargs True True True)"
    using assms by (simp add: evaluateInternal_def serializeFunction_def Let_def split: sum.splits)
  from 1 2 3 4 show ?thesis by blast
qed

theorem callable_repair_witness:
  "repairFunctionText ''increment(x) { return x+1 }'' = ''function increment(x) { return x+1 }''
   \<and> serializeFunction (\<lambda>body. body = ''(function increment(x) { return x+1 })'')
         ''increment(x) { return x+1 }'' = Inr ''function increment(x) { return x+1 }''
   \<and> evaluateInternal (stubEnv NotExported (\<lambda>body. False) (\<lambda>v. Inr []) (Rejects (JSError Error ''closed''))) 1
         (JFunction ''async 1 2'') None []
       = (Inl (Thrown (JSError Error ''Passed function is not well-serializable!'')), [])"
proof -
  have p: "\<not> parsesAsFunctionBody
              (stubEnv NotExported (\<lambda>body. body = ''(function increment(x) { return x+1 })'') (\<lambda>v. Inr [])
                 (Rejects (JSError Error ''closed'')))
              (''('' @ ''increment(x) { return x+1 }'' @ '')'')"
    by (simp add: stubEnv_def)
  have n: "\<not> prefix ''async '' ''increment(x) { return x+1 }''"
    by simp
  have q: "\<not> parsesAsFunctionBody (stubEnv NotExported (\<lambda>body. False) (\<lambda>v. Inr []) (Rejects (JSError Error ''closed'')))
              (''('' @ ''async 1 2'' @ '')'')"
    by (simp add: stubEnv_def)
  have a: "repairFunctionText ''increment(x) { return x+1 }'' = ''function increment(x) { return x+1 }''"
    using callable_repair [OF p, THEN conjunct2, THEN conjunct1] n by simp
  have b: "serializeFunction (\<lambda>body. body = ''(function increment(x) { return x+1 })'')
         ''increment(x) { return x+1 }'' = Inr ''function increment(x) { return x+1 }''"
    using callable_repair [OF p, THEN conjunct2, THEN conjunct2, THEN conjunct2] a
    by (simp add: stubEnv_def)
  have c: "evaluateInternal (stubEnv NotExported (\<lambda>body. False) (\<lambda>v. Inr []) (Rejects (JSError Error ''closed''))) 1
         (JFunction ''async 1 2'') None []
       = (Inl (Thrown (JSError Error ''Passed function is not well-serializable!'')), [])"
    using callable_repair [OF q, THEN conjunct2, THEN conjunct2, THEN conjunct1]
    by (simp add: stubEnv_def)
  from a b c show ?thesis by simp
qed

text \<open>
  The matcher against the pattern in words: a match of \<open>SOURCE_URL_REGEX\<close> somewhere in a
  text is a source-URL comment on one of its lines.
\<close>

lemma matchHere_prev:
  "Bol \<notin> set items \<Longrightarrow> matchHere items prev s = matchHere items prev' s"
proof (induction items prev s arbitrary: prev' rule: matchHere.induct)
  case (1 prev s)
  show ?case by simp
next
  case (2 items prev s)
  then show ?case by simp
next
  case (3 items prev s)
  show ?case
  proof (cases "case s of [] \<Rightarrow> True | c # cs \<Rightarrow> isLineTerminator c")
    case True
    then have "matchHere items prev s = matchHere items prev' s"
      using "3.prems" by (intro "3.IH") simp_all
    then show ?thesis by simp
  next
    case False
    then show ?thesis by simp
  qed
next
  case (4 p items prev)
  show ?case by simp
next
  case (5 p items prev c cs)
  show ?case by simp
next
  case (6 p items prev)
  then have "matchHere items prev [] = matchHere items prev' []" by simp
  then show ?case by simp
next
  case (7 p items prev c cs)
  have "matchHere items prev (c # cs) = matchHere items prev' (c # cs)"
    using "7.prems" by (intro "7.IH"(1)) simp
  then show ?case by simp
qed

lemma matchHere_Star:
  assumes "Bol \<notin> set items"
  shows "matchHere (Star p # items) prev s \<longleftrightarrow>
     (\<exists>xs ys. s = xs @ ys \<and> list_all p xs \<and> matchHere items prev ys)"
proof (induction s arbitrary: prev)
  case Nil
  then show ?case by simp
next
  case (Cons c cs)
  show ?case
  proof
    assume l: "matchHere (Star p # items) prev (c # cs)"
    show "\<exists>xs ys. c # cs = xs @ ys \<and> list_all p xs \<and> matchHere items prev ys"
    proof (cases "matchHere items prev (c # cs)")
      case True
      then have "c # cs = [] @ (c # cs) \<and> list_all p [] \<and> matchHere items prev (c # cs)"
        by simp
      then show ?thesis by blast
    next
      case False
      with l have pc: "p c" and m: "matchHere (Star p # items) (Some c) cs"
        by (auto split: if_splits)
      from m obtain xs ys where "cs = xs @ ys" "list_all p xs" "matchHere items (Some c) ys"
        using Cons.IH by blast
      moreover have "matchHere items (Some c) ys = matchHere items prev ys"
        using assms by (rule matchHere_prev)
      ultimately have "c # cs = (c # xs) @ ys \<and> list_all p (c # xs) \<and> matchHere items prev ys"
        using pc by simp
      then show ?thesis by blast
    qed
  next
    assume "\<exists>xs ys. c # cs = xs @ ys \<and> list_all p xs \<and> matchHere items prev ys"
    then obtain xs ys where e: "c # cs = xs @ ys" and a: "list_all p xs"
      and m: "matchHere items prev ys" by blast
    show "matchHere (Star p # items) prev (c # cs)"
    proof (cases xs)
      case Nil
      with e have "ys = c # cs" by simp
      with m have "matchHere items prev (c # cs)" by simp
      then show ?thesis by simp
    next
      case (Cons x xs')
      with e a have pc: "p c" and cs: "cs = xs' @ ys" and a': "list_all p xs'" by simp_all
      have "matchHere items (Some c) ys"
        using m matchHere_prev [OF assms, of "Some c" ys prev] by simp
      with cs a' have "matchHere (Star p # items) (Some c) cs"
        using Cons.IH by blast
      with pc show ?thesis by simp
    qed
  qed
qed

lemma matchHere_literal:
  assumes "Bol \<notin> set items"
  shows "matchHere (literal l @ items) prev s \<longleftrightarrow> (\<exists>ys. s = l @ ys \<and> matchHere items prev ys)"
proof (induction l arbitrary: prev s)
  case Nil
  then show ?case by (simp add: literal_def)
next
  case (Cons c l)
  have lit: "literal (c # l) @ items = One (\<lambda>x. x = c) # (literal l @ items)"
    by (simp add: literal_def)
  have nb: "Bol \<notin> set (literal l @ items)"
    using assms by (auto simp add: literal_def)
  show ?case
  proof (cases s)
    case Nil
    then show ?thesis by (simp add: lit)
  next
    case (Cons x xs)
    have "matchHere (literal l @ items) (Some x) xs = matchHere (literal l @ items) prev xs"
      using nb by (rule matchHere_prev)
    then show ?thesis
      using Cons Cons.IH [of prev xs] by (auto simp add: lit)
  qed
qed

lemma matchHere_One:
  assumes "Bol \<notin> set items"
  shows "matchHere (One p # items) prev s \<longleftrightarrow> (\<exists>c ys. s = c # ys \<and> p c \<and> matchHere items prev ys)"
proof (cases s)
  case Nil
  then show ?thesis by simp
next
  case (Cons x xs)
  have "matchHere items (Some x) xs = matchHere items prev xs"
    using assms by (rule matchHere_prev)
  with Cons show ?thesis by simp
qed

lemma matchHere_Eol: "matchHere [Eol] prev s \<longleftrightarrow> lineEnd s"
  by (cases s) (simp_all add: lineEnd_def)

lemma atLineStart_Cons: "atLineStart prev (c # pre) = atLineStart (Some c) pre"
  by (simp add: atLineStart_def)

lemma atLineStart_None: "atLineStart None pre = lineStart pre"
  by (simp add: atLineStart_def lineStart_def)

lemma matchHere_Bol:
  "matchHere (Bol # items) prev s \<longleftrightarrow> atLineStart prev [] \<and> matchHere items prev s"
  by (simp add: atLineStart_def)

lemma searchFrom_iff:
  assumes "Bol \<notin> set items"
  shows "searchFrom (Bol # items) prev s \<longleftrightarrow>
     (\<exists>pre ys. s = pre @ ys \<and> atLineStart prev pre \<and> matchHere items prev ys)"
proof (induction s arbitrary: prev)
  case Nil
  show ?case by (simp add: atLineStart_def)
next
  case (Cons c cs)
  have sw: "matchHere items (Some c) ys = matchHere items prev ys" for ys
    using assms by (rule matchHere_prev)
  have step: "searchFrom (Bol # items) prev (c # cs) \<longleftrightarrow>
      matchHere (Bol # items) prev (c # cs) \<or> searchFrom (Bol # items) (Some c) cs"
    by simp
  show ?case
  proof
    assume "searchFrom (Bol # items) prev (c # cs)"
    then consider (here) "matchHere (Bol # items) prev (c # cs)"
      | (later) "searchFrom (Bol # items) (Some c) cs"
      using step by blast
    then show "\<exists>pre ys. c # cs = pre @ ys \<and> atLineStart prev pre \<and> matchHere items prev ys"
    proof cases
      case here
      then have "c # cs = [] @ (c # cs) \<and> atLineStart prev [] \<and> matchHere items prev (c # cs)"
        using matchHere_Bol [of items prev "c # cs"] by simp
      then show ?thesis by blast
    next
      case later
      then obtain pre ys where e: "cs = pre @ ys" and b: "atLineStart (Some c) pre"
        and m: "matchHere items (Some c) ys"
        using Cons.IH [of "Some c"] by blast
      have "c # cs = (c # pre) @ ys \<and> atLineStart prev (c # pre) \<and> matchHere items prev ys"
        using e b m sw by (simp add: atLineStart_Cons)
      then show ?thesis by blast
    qed
  next
    assume "\<exists>pre ys. c # cs = pre @ ys \<and> atLineStart prev pre \<and> matchHere items prev ys"
    then obtain pre ys where e: "c # cs = pre @ ys" and b: "atLineStart prev pre"
      and m: "matchHere items prev ys" by blast
    show "searchFrom (Bol # items) prev (c # cs)"
    proof (cases pre)
      case Nil
      with e have "ys = c # cs" by simp
      with m b Nil have "matchHere (Bol # items) prev (c # cs)"
        using matchHere_Bol [of items prev "c # cs"] by simp
      with step show ?thesis by blast
    next
      case (Cons x pre')
      with e have cs: "cs = pre' @ ys" and x: "x = c" by simp_all
      have "atLineStart (Some c) pre'"
        using b Cons x by (simp add: atLineStart_Cons)
      moreover have "matchHere items (Some c) ys" using m sw by simp
      ultimately have "searchFrom (Bol # items) (Some c) cs"
        using Cons.IH [of "Some c"] cs by blast
      with step show ?thesis by blast
    qed
  qed
qed

lemma SOURCE_URL_REGEX_shape:
  "SOURCE_URL_REGEX =
     Bol # Star (\<lambda>c. c = CHR '' '' \<or> c = CHR 0x09)
       # (literal ''//'' @ One (\<lambda>c. c = CHR ''@'' \<or> c = CHR ''#'')
       # (literal '' sourceURL='' @ Star isStrWhiteSpaceChar
       # Star (\<lambda>c. \<not> isStrWhiteSpaceChar c) # Star isStrWhiteSpaceChar # [Eol]))"
  by (simp add: SOURCE_URL_REGEX_def)

lemma no_Bol_literal: "Bol \<notin> set (literal l @ items) \<longleftrightarrow> Bol \<notin> set items"
  by (auto simp add: literal_def)

lemma searchFrom_comment_pattern:
  "searchFrom
     (Bol # Star blank # (literal l1 @ One mark # (literal l2 @ Star ws # Star nws # Star ws # [Eol])))
     None s \<longleftrightarrow>
   (\<exists>pre blanks c w1 u w2 rest.
      s = pre @ blanks @ l1 @ [c] @ l2 @ w1 @ u @ w2 @ rest
      \<and> lineStart pre \<and> list_all blank blanks \<and> mark c
      \<and> list_all ws w1 \<and> list_all nws u \<and> list_all ws w2 \<and> lineEnd rest)"
proof -
  let ?i5 = "[Star ws, Eol]"
  let ?i4 = "Star nws # ?i5"
  let ?i3 = "Star ws # ?i4"
  let ?i2 = "literal l2 @ ?i3"
  let ?i1 = "One mark # ?i2"
  let ?i0 = "literal l1 @ ?i1"
  have n5: "Bol \<notin> set ?i5" and n4: "Bol \<notin> set ?i4" and n3: "Bol \<notin> set ?i3"
    by simp_all
  have n2: "Bol \<notin> set ?i2" by (rule iffD2 [OF no_Bol_literal n3])
  have n1: "Bol \<notin> set ?i1" using n2 by simp
  have n0: "Bol \<notin> set ?i0" by (rule iffD2 [OF no_Bol_literal n1])
  have nS: "Bol \<notin> set (Star blank # ?i0)" using n0 by simp
  have nE: "Bol \<notin> set [Eol]" by simp
  have m5: "matchHere ?i5 p t \<longleftrightarrow> (\<exists>w2 rest. t = w2 @ rest \<and> list_all ws w2 \<and> lineEnd rest)" for p t
    unfolding matchHere_Star [OF nE] matchHere_Eol ..
  have m4: "matchHere ?i4 p t \<longleftrightarrow>
      (\<exists>u w2 rest. t = u @ w2 @ rest \<and> list_all nws u \<and> list_all ws w2 \<and> lineEnd rest)" for p t
    unfolding matchHere_Star [OF n5] m5 by blast
  have m3: "matchHere ?i3 p t \<longleftrightarrow>
      (\<exists>w1 u w2 rest. t = w1 @ u @ w2 @ rest \<and> list_all ws w1 \<and> list_all nws u
         \<and> list_all ws w2 \<and> lineEnd rest)" for p t
    unfolding matchHere_Star [OF n4] m4 by blast
  have m2: "matchHere ?i2 p t \<longleftrightarrow>
      (\<exists>w1 u w2 rest. t = l2 @ w1 @ u @ w2 @ rest \<and> list_all ws w1 \<and> list_all nws u
         \<and> list_all ws w2 \<and> lineEnd rest)" for p t
    unfolding matchHere_literal [OF n3] m3 by blast
  have m1: "matchHere ?i1 p t \<longleftrightarrow>
      (\<exists>c w1 u w2 rest. t = c # l2 @ w1 @ u @ w2 @ rest \<and> mark c
         \<and> list_all ws w1 \<and> list_all nws u \<and> list_all ws w2 \<and> lineEnd rest)" for p t
    unfolding matchHere_One [OF n2] m2 by blast
  have m0: "matchHere ?i0 p t \<longleftrightarrow>
      (\<exists>c w1 u w2 rest. t = l1 @ c # l2 @ w1 @ u @ w2 @ rest \<and> mark c
         \<and> list_all ws w1 \<and> list_all nws u \<and> list_all ws w2 \<and> lineEnd rest)" for p t
    unfolding matchHere_literal [OF n1] m1 by blast
  have mS: "matchHere (Star blank # ?i0) p t \<longleftrightarrow>
      (\<exists>blanks c w1 u w2 rest. t = blanks @ l1 @ c # l2 @ w1 @ u @ w2 @ rest
         \<and> list_all blank blanks \<and> mark c
         \<and> list_all ws w1 \<and> list_all nws u \<and> list_all ws w2 \<and> lineEnd rest)" for p t
    unfolding matchHere_Star [OF n0] m0 by blast
  have "searchFrom (Bol # Star blank # ?i0) None s
      \<longleftrightarrow> (\<exists>pre ys. s = pre @ ys \<and> lineStart pre \<and> matchHere (Star blank # ?i0) None ys)"
    unfolding searchFrom_iff [OF nS] atLineStart_None ..
  also have "\<dots> \<longleftrightarrow> (\<exists>pre blanks c w1 u w2 rest.
      s = pre @ blanks @ l1 @ c # l2 @ w1 @ u @ w2 @ rest
      \<and> lineStart pre \<and> list_all blank blanks \<and> mark c
      \<and> list_all ws w1 \<and> list_all nws u \<and> list_all ws w2 \<and> lineEnd rest)"
    unfolding mS by blast
  finally show ?thesis by simp
qed

lemma RegExp_test_SOURCE_URL_REGEX:
  "RegExp_test SOURCE_URL_REGEX s \<longleftrightarrow> hasSourceUrlComment s"
  unfolding RegExp_test_def SOURCE_URL_REGEX_shape searchFrom_comment_pattern
    hasSourceUrlComment_def ..

lemma searchFrom_later:
  "searchFrom r (Some c) m \<Longrightarrow> searchFrom r prev (e @ c # m)"
  by (induction e arbitrary: prev) auto

lemma suffix_line_matches:
  "matchHere SOURCE_URL_REGEX (Some (CHR 0x0A)) sourceURL_suffix"
  by (simp add: SOURCE_URL_REGEX_def literal_def sourceURL_suffix_def EVALUATION_SCRIPT_URL_def
      isLineTerminator_def isStrWhiteSpaceChar_def)

lemma searchFrom_matchHere: "matchHere r prev s \<Longrightarrow> searchFrom r prev s"
  by (cases s) auto

lemma expressionWithSourceUrl_matches:
  "RegExp_test SOURCE_URL_REGEX (expressionWithSourceUrl e)"
proof (cases "RegExp_test SOURCE_URL_REGEX e")
  case True
  then show ?thesis by (simp add: expressionWithSourceUrl_def)
next
  case False
  have "searchFrom SOURCE_URL_REGEX (Some (CHR 0x0A)) sourceURL_suffix"
    using suffix_line_matches by (rule searchFrom_matchHere)
  then have "searchFrom SOURCE_URL_REGEX None (e @ CHR 0x0A # sourceURL_suffix)"
    by (rule searchFrom_later)
  with False show ?thesis by (simp add: expressionWithSourceUrl_def RegExp_test_def)
qed

lemma splitOn_no_separator: "c \<notin> set m \<Longrightarrow> splitOn c acc m = [acc @ m]"
  by (induction m arbitrary: acc) auto

lemma splitOn_append: "splitOn c acc (e @ c # m) = splitOn c acc e @ splitOn c [] m"
  by (induction e arbitrary: acc) auto

lemma String_split_appended_line:
  "c \<notin> set m \<Longrightarrow> String_split (e @ [c] @ m) c = String_split e c @ [m]"
  by (simp add: String_split_def splitOn_append splitOn_no_separator)

lemma splitOn_first:
  "(case splitOn c acc s of [] \<Rightarrow> None | l # ls \<Rightarrow> Some l) = Some (acc @ takeWhile (\<lambda>x. x \<noteq> c) s)"
  by (induction s arbitrary: acc) auto

text \<open>
  C7. For a string as program text, one \<open>Runtime.evaluate\<close> command is handed to the
  transport. If the source-URL pattern matches somewhere in the text, the text is sent
  unchanged; otherwise the marker \<open>//# sourceURL=__puppeteer_evaluation_script__\<close> is
  appended once, as the final line, after the unchanged lines of the text. Either way the
  text sent matches the pattern, and the pattern matches exactly the texts with a
  source-URL comment on a line of their own.
\<close>

theorem expression_encoding:
  assumes "isString pageFunction"
  shows "snd (evaluateInternal env contextId pageFunction callerFrame args)
       = [Runtime_evaluate (expressionWithSourceUrl (stringOf pageFunction)) contextId True True True]
    \<and> (RegExp_test SOURCE_URL_REGEX (stringOf pageFunction) \<longrightarrow>
         expressionWithSourceUrl (stringOf pageFunction) = stringOf pageFunction)
    \<and> (\<not> RegExp_test SOURCE_URL_REGEX (stringOf pageFunction) \<longrightarrow>
         expressionWithSourceUrl (stringOf pageFunction)
           = stringOf pageFunction @ [CHR 0x0A] @ ''//# sourceURL=__puppeteer_evaluation_script__''
         \<and> String_split (expressionWithSourceUrl (stringOf pageFunction)) (CHR 0x0A)
           = String_split (stringOf pageFunction) (CHR 0x0A)
             @ [''//# sourceURL=__puppeteer_evaluation_script__''])
    \<and> RegExp_test SOURCE_URL_REGEX (expressionWithSourceUrl (stringOf pageFunction))
    \<and> (RegExp_test SOURCE_URL_REGEX (stringOf pageFunction)
         \<longleftrightarrow> hasSourceUrlComment (stringOf pageFunction))"
proof -
  have 1: "snd (evaluateInternal env contextId pageFunction callerFrame args)
       = [Runtime_evaluate (expressionWithSourceUrl (stringOf pageFunction)) contextId True True True]"
    using assms by (simp add: evaluateInternal_def Let_def)
  have m: "sourceURL_suffix = ''//# sourceURL=__puppeteer_evaluation_script__''"
    by (simp add: sourceURL_suffix_def EVALUATION_SCRIPT_URL_def)
  have n: "CHR 0x0A \<notin> set ''//# sourceURL=__puppeteer_evaluation_script__''"
    by simp
  have 3: "\<not> RegExp_test SOURCE_URL_REGEX (stringOf pageFunction) \<longrightarrow>
         expressionWithSourceUrl (stringOf pageFunction)
           = stringOf pageFunction @ [CHR 0x0A] @ ''//# sourceURL=__puppeteer_evaluation_script__''
         \<and> String_split (expressionWithSourceUrl (stringOf pageFunction)) (CHR 0x0A)
           = String_split (stringOf pageFunction) (CHR 0x0A)
             @ [''//# sourceURL=__puppeteer_evaluation_script__'']"
    using String_split_appended_line [OF n, of "stringOf pageFunction"]
    by (simp add: expressionWithSourceUrl_def m)
  have 2: "RegExp_test SOURCE_URL_REGEX (stringOf pageFunction) \<longrightarrow>
         expressionWithSourceUrl (stringOf pageFunction) = stringOf pageFunction"
    by (simp add: expressionWithSourceUrl_def)
  from 1 2 3 expressionWithSourceUrl_matches [of "stringOf pageFunction"]
    RegExp_test_SOURCE_URL_REGEX [of "stringOf pageFunction"]
  show ?thesis
    by blast
qed

theorem expression_encoding_witness:
  "snd (evaluateInternal (stubEnv NotExported (\<lambda>body. True) (\<lambda>v. Inr []) (Rejects (JSError Error ''closed''))) 1
          (JString ''1+1'') None [])
     = [Runtime_evaluate (''1+1'' @ [CHR 0x0A] @ ''//# sourceURL=__puppeteer_evaluation_script__'')
          1 True True True]
   \<and> snd (evaluateInternal (stubEnv NotExported (\<lambda>body. True) (\<lambda>v. Inr []) (Rejects (JSError Error ''closed''))) 1
          (JString (''1+1'' @ [CHR 0x0A] @ ''  //@ sourceURL=app.js'')) None [])
     = [Runtime_evaluate (''1+1'' @ [CHR 0x0A] @ ''  //@ sourceURL=app.js'') 1 True True True]"
proof -
  have a: "\<not> RegExp_test SOURCE_URL_REGEX ''1+1''"
    by (simp add: RegExp_test_def SOURCE_URL_REGEX_def literal_def)
  have b: "RegExp_test SOURCE_URL_REGEX (''1+1'' @ [CHR 0x0A] @ ''  //@ sourceURL=app.js'')"
    by (simp add: RegExp_test_def SOURCE_URL_REGEX_def literal_def isLineTerminator_def
        isStrWhiteSpaceChar_def)
  have s: "isString (JString x)" for x by simp
  show ?thesis
    using expression_encoding [OF s, of "stubEnv NotExported (\<lambda>body. True) (\<lambda>v. Inr []) (Rejects (JSError Error ''closed''))" 1 "''1+1''" None "[]"]
      expression_encoding [OF s, of "stubEnv NotExported (\<lambda>body. True) (\<lambda>v. Inr []) (Rejects (JSError Error ''closed''))" 1
         "''1+1'' @ [CHR 0x0A] @ ''  //@ sourceURL=app.js''" None "[]"] a b
    by (simp del: One_nat_def)
qed

text \<open>
  When the exception of the response has a description, the error raised has the class
  name as name, the first line of the description as message, the description as stack,
  the frames parsed from the lines of the description, and the caller's frame index.
\<close>

lemma remote_failure_fields:
  assumes "exceptionDetails response = Some details"
    and "exception details = Some ex"
    and "description ex = Some desc"
  shows "awaitSend env callerFrame (Resolves response) onThrow =
     Inl (ThrownSymbolicateable
       \<lparr>stack = Some desc, name = className ex,
        message = Some (takeWhile (\<lambda>x. x \<noteq> CHR 0x0A) desc),
        frame = callerFrame,
        stackFrame = parseStack env (String_split desc (CHR 0x0A))\<rparr>)"
proof -
  have "(case String_split desc (CHR 0x0A) of [] \<Rightarrow> None | l # ls \<Rightarrow> Some l)
          = Some (takeWhile (\<lambda>x. x \<noteq> CHR 0x0A) desc)"
    using splitOn_first [of "CHR 0x0A" "[]" desc] by (simp add: String_split_def)
  then show ?thesis
    using assms by (simp add: awaitSend_def decodeResponse_def raiseRemoteFailure_def)
qed

text \<open>
  C8 does not hold of the code when the exception has no description, as for
  \<open>throw undefined\<close> or a thrown string: \<open>split\<close> is called on the absent description
  while the argument of the structured error is built, and the call raises a TypeError
  in place of the structured error.
\<close>

theorem remote_failure_without_description:
  "evaluateInternal
     (stubEnv NotExported (\<lambda>body. True) (\<lambda>v. Inr [])
        (Resolves \<lparr>exceptionDetails =
                     Some \<lparr>exception = Some (RemoteObject (Some ''undefined'') None None JUndefined None None)\<rparr>,
                   result = RemoteObject (Some ''undefined'') None None JUndefined None None\<rparr>))
     1 (JString ''throw undefined'') (Some 0) []
   = (Inl (Thrown (JSError TypeError
        (''Cannot read properties of undefined (reading '' @ [CHR 0x27] @ ''split'' @ [CHR 0x27] @ '')''))),
      [Runtime_evaluate
         (''throw undefined'' @ [CHR 0x0A] @ ''//# sourceURL=__puppeteer_evaluation_script__'')
         1 True True True])"
  by (simp add: evaluateInternal_def stubEnv_def expressionWithSourceUrl_def RegExp_test_def
      SOURCE_URL_REGEX_def literal_def sourceURL_suffix_def EVALUATION_SCRIPT_URL_def
      awaitSend_def decodeResponse_def raiseRemoteFailure_def)

text \<open>
  C10, as stated, fails: the message of the error is built with a template literal, and
  the conversion of a Symbol to a string throws a TypeError of its own, which is what the
  caller gets.
\<close>

theorem non_callable_counterexample:
  "evaluateInternal (stubEnv NotExported (\<lambda>body. True) (\<lambda>v. Inr []) (Rejects (JSError Error ''closed'')))
     1 (JSymbol ''id'') None []
   = (Inl (Thrown (JSError TypeError ''Cannot convert a Symbol value to a string'')), [])"
  by (simp add: evaluateInternal_def ToString_def)

text \<open>
  C10, amended. A program input that is neither a string nor a function makes the invoker
  raise a local error, without a command handed to the transport and whatever the
  argument list is: the error \<open>Expected to get |string| or |function| as the first
  argument\<close> with the input printed in it when the input converts to a string, and the
  TypeError of the conversion when it does not (a Symbol, an object whose \<open>toString\<close> and
  \<open>valueOf\<close> give no primitive).
\<close>

theorem non_callable_rejected:
  assumes "\<not> isString pageFunction" and "typeof pageFunction \<noteq> ''function''"
  shows "evaluateInternal env contextId pageFunction callerFrame args
     = (Inl (Thrown
          (case ToString env pageFunction of
             Inl e \<Rightarrow> e
           | Inr printed \<Rightarrow>
               JSError Error
                 (''Expected to get |string| or |function| as the first argument, but got ''
                    @ [CHR 0x22] @ printed @ [CHR 0x22] @ '' instead.''))), [])
    \<and> evaluateInternal env contextId pageFunction callerFrame args
     = evaluateInternal env contextId pageFunction callerFrame []"
  using assms by (simp add: evaluateInternal_def split: sum.splits)

theorem non_callable_rejected_witness:
  "evaluateInternal (stubEnv NotExported (\<lambda>body. True) (\<lambda>v. Inr []) (Rejects (JSError Error ''closed'')))
     1 JNull None [JNumber (Finite 5)]
   = (Inl (Thrown (JSError Error
        (''Expected to get |string| or |function| as the first argument, but got ''
           @ [CHR 0x22] @ ''null'' @ [CHR 0x22] @ '' instead.''))), [])
   \<and> evaluateInternal (stubEnv NotExported (\<lambda>body. True) (\<lambda>v. Inr []) (Rejects (JSError Error ''closed'')))
     1 (JNumber (Finite 5)) None []
   = (Inl (Thrown (JSError Error
        (''Expected to get |string| or |function| as the first argument, but got ''
           @ [CHR 0x22] @ ''5'' @ [CHR 0x22] @ '' instead.''))), [])
   \<and> evaluateInternal (stubEnv NotExported (\<lambda>body. True) (\<lambda>v. Inr []) (Rejects (JSError Error ''closed'')))
     1 (JObject [(''a'', JNumber (Finite 1))]) None []
   = (Inl (Thrown (JSError Error
        (''Expected to get |string| or |function| as the first argument, but got ''
           @ [CHR 0x22] @ ''[object Object]'' @ [CHR 0x22] @ '' instead.''))), [])
   \<and> evaluateInternal (stubEnv NotExported (\<lambda>body. True) (\<lambda>v. Inr []) (Rejects (JSError Error ''closed'')))
     1 (JObject [(''toString'', JNumber (Finite 5))]) None []
   = (Inl (Thrown (JSError TypeError ''Cannot convert object to primitive value'')), [])"
proof -
  let ?env = "stubEnv NotExported (\<lambda>body. True) (\<lambda>v. Inr []) (Rejects (JSError Error ''closed''))"
  have five: "bigintToString 5 = ''5''"
    by (simp add: bigintToString_def digitsOfNat.simps digitChar_def)
  have a: "ToString ?env JNull = Inr ''null''"
    "ToString ?env (JNumber (Finite 5)) = Inr ''5''"
    "ToString ?env (JObject [(''a'', JNumber (Finite 1))]) = Inr ''[object Object]''"
    "ToString ?env (JObject [(''toString'', JNumber (Finite 5))])
       = Inl (JSError TypeError ''Cannot convert object to primitive value'')"
    by (simp_all add: ToString_def isSafeInteger_def five)
  show ?thesis
    using non_callable_rejected [of JNull ?env 1 None "[JNumber (Finite 5)]", THEN conjunct1]
      non_callable_rejected [of "JNumber (Finite 5)" ?env 1 None "[]", THEN conjunct1]
      non_callable_rejected [of "JObject [(''a'', JNumber (Finite 1))]" ?env 1 None "[]", THEN conjunct1]
      non_callable_rejected [of "JObject [(''toString'', JNumber (Finite 5))]" ?env 1 None "[]", THEN conjunct1]
    by (simp add: a)
qed

text \<open>
  The second end-to-end example of the specification, with the name \<open>JSHandle\<close> bound to
  the class of handles: a shorthand method is repaired, its argument is sent as a plain
  value, and the stubbed answer is decoded.
\<close>

lemma end_to_end_increment:
  "evaluateInternal
     (stubEnv ExportedClass (\<lambda>body. body = ''(function increment(x) { return x+1 })'')
        (\<lambda>v. Inr [])
        (Resolves \<lparr>exceptionDetails = None,
                   result = RemoteObject (Some ''number'') None (Some ''6'') (JNumber (Finite 6)) None None\<rparr>))
     1 (JFunction ''increment(x) { return x+1 }'') None [JNumber (Finite 5)]
   = (Inr (JNumber (Finite 6)),
      [Runtime_callFunctionOn
         (''function increment(x) { return x+1 }'' @ [CHR 0x0A]
            @ ''//# sourceURL=__puppeteer_evaluation_script__'' @ [CHR 0x0A])
         1 [\<lparr>value = Some (JNumber (Finite 5)), unserializableValue = None, objectId = None\<rparr>]
         True True True])"
  by (simp add: evaluateInternal_def stubEnv_def serializeFunction_def repairFunctionText_def
      String_startsWith_def convertArgument_def Object_is_def instanceof_JSHandle_def
      sourceURL_suffix_def EVALUATION_SCRIPT_URL_def awaitSend_def decodeResponse_def
      valueFromRemoteObject_def truthy_def)


end
